theory Spec2Isabelle
  imports Complex_Main "HOL-Library.Word" "HOL-Library.Char_ord" "HOL-Library.List_Lexorder"
begin

unbundle bit_operations_syntax

section \<open>Share difficulty from compact bits (btcLike.h, getDifficulty)\<close>

text \<open>
  \<^verbatim>\<open>getDifficulty\<close> reads the exponent byte \<^verbatim>\<open>(bits >> 24) & 0xff\<close> into the C
  \<^verbatim>\<open>int nShift\<close> and the mantissa \<^verbatim>\<open>bits & 0x00ffffff\<close> into a double. The two
  \<^verbatim>\<open>while\<close> loops are the functions \<open>shiftUp\<close> and \<open>shiftDown\<close>. The C double
  \<^verbatim>\<open>dDiff\<close> is carried as a real number: rounding, infinities and the quotient by a
  zero mantissa are not represented, and nothing below depends on the value of
  \<^verbatim>\<open>dDiff\<close>; the loops are controlled by \<^verbatim>\<open>nShift\<close> alone.
\<close>

definition nShift_of :: "32 word \<Rightarrow> int" where
  "nShift_of bits = uint (drop_bit 24 bits AND 0xff)"

definition mantissa_of :: "32 word \<Rightarrow> int" where
  "mantissa_of bits = uint (bits AND 0x00ffffff)"

function shiftUp :: "int \<Rightarrow> real \<Rightarrow> int \<times> real" where
  "shiftUp nShift dDiff =
     (if nShift < 29 then shiftUp (nShift + 1) (dDiff * 256) else (nShift, dDiff))"
  by pat_completeness auto
termination
  by (relation "measure (\<lambda>(nShift, dDiff). nat (29 - nShift))") auto

function shiftDown :: "int \<Rightarrow> real \<Rightarrow> int \<times> real" where
  "shiftDown nShift dDiff =
     (if nShift > 29 then shiftDown (nShift - 1) (dDiff / 256) else (nShift, dDiff))"
  by pat_completeness auto
termination
  by (relation "measure (\<lambda>(nShift, dDiff). nat (nShift - 29))") auto

definition getDifficulty :: "32 word \<Rightarrow> real" where
  "getDifficulty bits =
     (let nShift = nShift_of bits;
          dDiff = real_of_int 0x0000ffff / real_of_int (mantissa_of bits);
          (nShift1, dDiff1) = shiftUp nShift dDiff;
          (nShift2, dDiff2) = shiftDown nShift1 dDiff1
      in dDiff2)"

text \<open>
  The same two loops with a counter of executed loop bodies beside the program state.
  The counter is not read by the loops; \<open>shiftUp_counted_state\<close> and
  \<open>shiftDown_counted_state\<close> show that the program state is the one of the loops above.
\<close>

function shiftUp_counted :: "int \<Rightarrow> real \<Rightarrow> nat \<Rightarrow> (int \<times> real) \<times> nat" where
  "shiftUp_counted nShift dDiff n =
     (if nShift < 29 then shiftUp_counted (nShift + 1) (dDiff * 256) (Suc n)
      else ((nShift, dDiff), n))"
  by pat_completeness auto
termination
  by (relation "measure (\<lambda>(nShift, dDiff, n). nat (29 - nShift))") auto

function shiftDown_counted :: "int \<Rightarrow> real \<Rightarrow> nat \<Rightarrow> (int \<times> real) \<times> nat" where
  "shiftDown_counted nShift dDiff n =
     (if nShift > 29 then shiftDown_counted (nShift - 1) (dDiff / 256) (Suc n)
      else ((nShift, dDiff), n))"
  by pat_completeness auto
termination
  by (relation "measure (\<lambda>(nShift, dDiff, n). nat (nShift - 29))") auto

definition getDifficulty_counted :: "32 word \<Rightarrow> (int \<times> real) \<times> nat" where
  "getDifficulty_counted bits =
     (let nShift = nShift_of bits;
          dDiff = real_of_int 0x0000ffff / real_of_int (mantissa_of bits);
          ((nShift1, dDiff1), n1) = shiftUp_counted nShift dDiff 0;
          ((nShift2, dDiff2), n2) = shiftDown_counted nShift1 dDiff1 n1
      in ((nShift2, dDiff2), n2))"

section \<open>JSON values (rapidjson)\<close>

text \<open>
  The block template arrives as a rapidjson document. Integers that rapidjson stores as
  integers lie between \<open>-2^63\<close> and \<open>2^64 - 1\<close>; every other number is a double
  (\<open>JDouble\<close>, its value is never read by this code). \<^verbatim>\<open>HasMember\<close> and
  \<^verbatim>\<open>operator[]\<close> find the first member with the given name. rapidjson asserts that
  the value is an object in \<^verbatim>\<open>HasMember\<close> and that it is a string in
  \<^verbatim>\<open>GetString\<close>; the callers below turn a failed assertion into the fault
  \<open>AssertionFailed\<close>. The fault \<open>Diverges\<close> is a call that does not return.
\<close>

datatype json =
    JNull
  | JBool bool
  | JInt int
  | JDouble
  | JString string
  | JArray "json list"
  | JObject "(string \<times> json) list"

datatype fault = AssertionFailed | Diverges

definition IsString :: "json \<Rightarrow> bool" where
  "IsString v = (case v of JString s \<Rightarrow> True | _ \<Rightarrow> False)"

definition IsObject :: "json \<Rightarrow> bool" where
  "IsObject v = (case v of JObject ms \<Rightarrow> True | _ \<Rightarrow> False)"

definition IsArray :: "json \<Rightarrow> bool" where
  "IsArray v = (case v of JArray xs \<Rightarrow> True | _ \<Rightarrow> False)"

definition IsInt64 :: "json \<Rightarrow> bool" where
  "IsInt64 v = (case v of JInt n \<Rightarrow> - (2 ^ 63) \<le> n \<and> n < 2 ^ 63 | _ \<Rightarrow> False)"

definition IsUint64 :: "json \<Rightarrow> bool" where
  "IsUint64 v = (case v of JInt n \<Rightarrow> 0 \<le> n \<and> n < 2 ^ 64 | _ \<Rightarrow> False)"

definition IsUint :: "json \<Rightarrow> bool" where
  "IsUint v = (case v of JInt n \<Rightarrow> 0 \<le> n \<and> n < 2 ^ 32 | _ \<Rightarrow> False)"

definition GetString :: "json \<Rightarrow> string" where
  "GetString v = (case v of JString s \<Rightarrow> s | _ \<Rightarrow> [])"

definition GetInt64 :: "json \<Rightarrow> 64 word" where
  "GetInt64 v = (case v of JInt n \<Rightarrow> word_of_int n | _ \<Rightarrow> 0)"

definition GetUint64 :: "json \<Rightarrow> 64 word" where
  "GetUint64 v = (case v of JInt n \<Rightarrow> word_of_int n | _ \<Rightarrow> 0)"

definition GetUint :: "json \<Rightarrow> 32 word" where
  "GetUint v = (case v of JInt n \<Rightarrow> word_of_int n | _ \<Rightarrow> 0)"

definition GetArray :: "json \<Rightarrow> json list" where
  "GetArray v = (case v of JArray xs \<Rightarrow> xs | _ \<Rightarrow> [])"

definition FindMember :: "(string \<times> json) list \<Rightarrow> string \<Rightarrow> json option" where
  "FindMember ms name = map_of ms name"

definition HasMember :: "(string \<times> json) list \<Rightarrow> string \<Rightarrow> bool" where
  "HasMember ms name = (case FindMember ms name of Some v \<Rightarrow> True | None \<Rightarrow> False)"

definition Member :: "(string \<times> json) list \<Rightarrow> string \<Rightarrow> json" where
  "Member ms name = (case FindMember ms name of Some v \<Rightarrow> v | None \<Rightarrow> JNull)"

section \<open>Primitive codec\<close>

type_synonym byte = "8 word"
type_synonym bytes = "byte list"
type_synonym uint256 = "256 word"

text \<open>
  Modelled from the spec: \<^verbatim>\<open>serialize.h\<close> and \<^verbatim>\<open>xmstream\<close> are not among the
  sources. Section 4.B: integers are little-endian; CompactSize is one byte below 0xFD,
  0xFD and a 16-bit value up to 0xFFFF, 0xFE and a 32-bit value up to 0xFFFFFFFF, else
  0xFF and a 64-bit value; hex is lowercase, two digits per byte. Section 4.E: the
  reserved extranonce region is zero bytes (\<open>reserve\<close>). An \<^verbatim>\<open>xmstream\<close> is its
  contents: \<^verbatim>\<open>write\<close> and \<^verbatim>\<open>reserve\<close> append, as the consecutive calls of
  buildBlockImpl show, \<^verbatim>\<open>offsetOf\<close> and \<^verbatim>\<open>sizeOf\<close> are the length,
  \<^verbatim>\<open>reset\<close> empties it.
\<close>

fun le_bytes :: "nat \<Rightarrow> int \<Rightarrow> bytes" where
  "le_bytes 0 v = []"
| "le_bytes (Suc n) v = of_int (v mod 256) # le_bytes n (v div 256)"

definition serialize_u32 :: "32 word \<Rightarrow> bytes" where
  "serialize_u32 w = le_bytes 4 (uint w)"

definition serialize_u64 :: "64 word \<Rightarrow> bytes" where
  "serialize_u64 w = le_bytes 8 (uint w)"

definition serialize_uint256 :: "uint256 \<Rightarrow> bytes" where
  "serialize_uint256 w = le_bytes 32 (uint w)"

definition serializeVarSize :: "64 word \<Rightarrow> bytes" where
  "serializeVarSize v =
     (if v < 0xFD then [ucast v]
      else if v \<le> 0xFFFF then 0xFD # le_bytes 2 (uint v)
      else if v \<le> 0xFFFFFFFF then 0xFE # le_bytes 4 (uint v)
      else 0xFF # le_bytes 8 (uint v))"

definition reserve :: "nat \<Rightarrow> bytes" where
  "reserve n = replicate n 0"

definition hexDigitLower :: "byte \<Rightarrow> char" where
  "hexDigitLower n = ''0123456789abcdef'' ! unat (n AND 0x0F)"

definition byte2hex :: "byte \<Rightarrow> string" where
  "byte2hex b = [hexDigitLower (drop_bit 4 b), hexDigitLower b]"

definition bin2hexLowerCase :: "bytes \<Rightarrow> string" where
  "bin2hexLowerCase bs = concat (map byte2hex bs)"

text \<open>
  Modelled from the spec: \<^verbatim>\<open>hex2bin\<close> and \<^verbatim>\<open>uint256::SetHex/GetHex\<close> are not
  among the sources. \<open>hex2bin\<close> converts \<^verbatim>\<open>size/2\<close> digit pairs; the spec fixes it on
  hex digits only, a character that is no hex digit counts as 0 here. Section 3: the hex
  form of a hash is in reversed byte order, so the hex string read as a number is the
  256-bit value; \<open>SetHex\<close> reads the leading hex digits.
\<close>

definition hexDigit2bin :: "char \<Rightarrow> int" where
  "hexDigit2bin c =
     (let n = of_char c in
      if 48 \<le> n \<and> n \<le> 57 then n - 48
      else if 97 \<le> n \<and> n \<le> 102 then n - 87
      else if 65 \<le> n \<and> n \<le> 70 then n - 55
      else 0)"

definition isHexDigit :: "char \<Rightarrow> bool" where
  "isHexDigit c =
     (let n = (of_char c :: int) in
      (48 \<le> n \<and> n \<le> 57) \<or> (97 \<le> n \<and> n \<le> 102) \<or> (65 \<le> n \<and> n \<le> 70))"

fun hex2bin :: "string \<Rightarrow> bytes" where
  "hex2bin (a # b # rest) = of_int (16 * hexDigit2bin a + hexDigit2bin b) # hex2bin rest"
| "hex2bin rest = []"

definition hexValue :: "string \<Rightarrow> int" where
  "hexValue s = foldl (\<lambda>acc c. 16 * acc + hexDigit2bin c) 0 s"

definition SetHex :: "string \<Rightarrow> uint256" where
  "SetHex s = word_of_int (hexValue (takeWhile isHexDigit s))"

definition GetHex :: "uint256 \<Rightarrow> string" where
  "GetHex h = bin2hexLowerCase (rev (serialize_uint256 h))"

text \<open>
  \<^verbatim>\<open>strtoul(s, nullptr, 16)\<close> is the C library's (ISO C, 7.22.1.4), here with a
  64-bit \<^verbatim>\<open>unsigned long\<close>. It skips leading white space (\<^verbatim>\<open>isspace\<close> in the C
  locale: space and the characters 9 to 13), reads an optional sign, an optional
  \<^verbatim>\<open>0x\<close> or \<^verbatim>\<open>0X\<close> that a hex digit follows, and the longest run of hex digits.
  No digit gives 0; a value above \<^verbatim>\<open>ULONG_MAX\<close> gives \<^verbatim>\<open>ULONG_MAX\<close>; a minus
  sign negates the value in the unsigned type.
\<close>

definition isspace :: "char \<Rightarrow> bool" where
  "isspace c = (let n = (of_char c :: int) in n = 32 \<or> (9 \<le> n \<and> n \<le> 13))"

definition strtoul16 :: "string \<Rightarrow> 64 word" where
  "strtoul16 s =
     (let s1 = dropWhile isspace s;
          negative = (case s1 of c # rest \<Rightarrow> c = CHR ''-'' | [] \<Rightarrow> False);
          s2 = (case s1 of
                  c # rest \<Rightarrow> if c = CHR ''-'' \<or> c = CHR ''+'' then rest else s1
                | [] \<Rightarrow> []);
          s3 = (case s2 of
                  a # b # rest \<Rightarrow>
                    if a = CHR ''0'' \<and> (b = CHR ''x'' \<or> b = CHR ''X'') \<and>
                       (case rest of c # cs \<Rightarrow> isHexDigit c | [] \<Rightarrow> False)
                    then rest else s2
                | _ \<Rightarrow> s2);
          v = hexValue (takeWhile isHexDigit s3)
      in if 2 ^ 64 \<le> v then - 1
         else if negative then - word_of_int v
         else word_of_int v)"

section \<open>Transactions and block headers\<close>

record TxIn =
  previousOutputHash :: uint256
  previousOutputIndex :: "32 word"
  scriptSig :: bytes
  sequence :: "32 word"
  witnessStack :: "bytes list"

record TxOut =
  txValue :: "64 word"
  pkScript :: bytes

record Transaction =
  version :: "32 word"
  txIn :: "TxIn list"
  txOut :: "TxOut list"
  lockTime :: "32 word"

record BlockHeader =
  nVersion :: "32 word"
  hashPrevBlock :: uint256
  hashMerkleRoot :: uint256
  nTime :: "32 word"
  nBits :: "32 word"
  nNonce :: "32 word"

text \<open>
  Modelled from the spec: the transaction and header codec (\<^verbatim>\<open>btc.h\<close>,
  \<^verbatim>\<open>BTC::Io\<close>) is not among the sources. Section 3: the legacy form is
  \<open>version, CompactSize(|txIn|), txIns, CompactSize(|txOut|), txOuts, lockTime\<close>; the
  witness form puts the bytes 0x00 0x01 after the version and the witness stacks before
  lockTime; the header is 80 bytes, little-endian. \<open>TxOut.value\<close> is the field
  \<open>txValue\<close>.
\<close>

definition serialize_bytes :: "bytes \<Rightarrow> bytes" where
  "serialize_bytes bs = serializeVarSize (of_nat (length bs)) @ bs"

definition serialize_TxIn :: "TxIn \<Rightarrow> bytes" where
  "serialize_TxIn i =
     serialize_uint256 (previousOutputHash i) @ serialize_u32 (previousOutputIndex i)
     @ serialize_bytes (scriptSig i) @ serialize_u32 (sequence i)"

definition serialize_TxOut :: "TxOut \<Rightarrow> bytes" where
  "serialize_TxOut out = serialize_u64 (txValue out) @ serialize_bytes (pkScript out)"

definition serialize_witnessStack :: "bytes list \<Rightarrow> bytes" where
  "serialize_witnessStack st =
     serializeVarSize (of_nat (length st)) @ concat (map serialize_bytes st)"

definition serialize_Transaction :: "Transaction \<Rightarrow> bool \<Rightarrow> bytes" where
  "serialize_Transaction tx serializeWitness =
     serialize_u32 (version tx)
     @ (if serializeWitness then [0x00, 0x01] else [])
     @ serializeVarSize (of_nat (length (txIn tx))) @ concat (map serialize_TxIn (txIn tx))
     @ serializeVarSize (of_nat (length (txOut tx))) @ concat (map serialize_TxOut (txOut tx))
     @ (if serializeWitness
        then concat (map (\<lambda>i. serialize_witnessStack (witnessStack i)) (txIn tx)) else [])
     @ serialize_u32 (lockTime tx)"

text \<open>
  Modelled from the spec: \<^verbatim>\<open>getFirstScriptSigOffset\<close> is declared in \<^verbatim>\<open>btc.h\<close>.
  Section 4.C: the byte position of the first input's scriptSig content, after its
  CompactSize length prefix, in the requested form of the transaction it is called on.
  buildCoinbaseTx calls it on a transaction with one input.
\<close>

definition getFirstScriptSigOffset :: "Transaction \<Rightarrow> bool \<Rightarrow> nat" where
  "getFirstScriptSigOffset tx serializeWitness =
     4 + (if serializeWitness then 2 else 0)
     + length (serializeVarSize (of_nat (length (txIn tx))))
     + (case txIn tx of
          [] \<Rightarrow> 0
        | i # rest \<Rightarrow> 32 + 4 + length (serializeVarSize (of_nat (length (scriptSig i)))))"

definition serialize_BlockHeader :: "BlockHeader \<Rightarrow> bytes" where
  "serialize_BlockHeader h =
     serialize_u32 (nVersion h) @ serialize_uint256 (hashPrevBlock h)
     @ serialize_uint256 (hashMerkleRoot h) @ serialize_u32 (nTime h)
     @ serialize_u32 (nBits h) @ serialize_u32 (nNonce h)"

text \<open>
  Modelled from the spec: \<^verbatim>\<open>serializeForCoinbase\<close> is not among the sources.
  Section 4.B: a length byte, then the height little-endian without its leading zero
  bytes.
\<close>

definition serializeForCoinbase :: "64 word \<Rightarrow> bytes" where
  "serializeForCoinbase height =
     (let bs = rev (dropWhile (\<lambda>b. b = 0) (rev (serialize_u64 height)))
      in of_nat (length bs) # bs)"

text \<open>
  Modelled from the spec: \<^verbatim>\<open>BTC::unserialize\<close> of a transaction is not among the
  sources. It reads the forms of section 3; a read past the end of the stream is the
  stream's \<^verbatim>\<open>eof\<close> (\<open>None\<close>), and the bytes left over are returned beside the
  transaction (\<^verbatim>\<open>remaining\<close>). The bytes 0x00 0x01 after the version announce the
  witness form.
\<close>

definition le_value :: "bytes \<Rightarrow> int" where
  "le_value bs = foldr (\<lambda>b acc. uint b + 256 * acc) bs 0"

definition read_bytes :: "nat \<Rightarrow> bytes \<Rightarrow> (bytes \<times> bytes) option" where
  "read_bytes n bs = (if length bs < n then None else Some (take n bs, drop n bs))"

definition read_le :: "nat \<Rightarrow> bytes \<Rightarrow> (int \<times> bytes) option" where
  "read_le n bs = map_option (\<lambda>(a, r). (le_value a, r)) (read_bytes n bs)"

definition unserializeVarSize :: "bytes \<Rightarrow> (nat \<times> bytes) option" where
  "unserializeVarSize bs =
     (case bs of
        [] \<Rightarrow> None
      | b # r \<Rightarrow>
          if b < 0xFD then Some (unat b, r)
          else map_option (\<lambda>(v, r'). (nat v, r'))
                 (read_le (if b = 0xFD then 2 else if b = 0xFE then 4 else 8) r))"

definition unserialize_bytes :: "bytes \<Rightarrow> (bytes \<times> bytes) option" where
  "unserialize_bytes bs =
     (case unserializeVarSize bs of None \<Rightarrow> None | Some (n, r) \<Rightarrow> read_bytes n r)"

fun unserialize_many ::
  "(bytes \<Rightarrow> ('a \<times> bytes) option) \<Rightarrow> nat \<Rightarrow> bytes \<Rightarrow> ('a list \<times> bytes) option" where
  "unserialize_many rd 0 bs = Some ([], bs)"
| "unserialize_many rd (Suc n) bs =
     (case rd bs of
        None \<Rightarrow> None
      | Some (x, r) \<Rightarrow>
          (case unserialize_many rd n r of
             None \<Rightarrow> None
           | Some (xs, r') \<Rightarrow> Some (x # xs, r')))"

definition unserialize_vector ::
  "(bytes \<Rightarrow> ('a \<times> bytes) option) \<Rightarrow> bytes \<Rightarrow> ('a list \<times> bytes) option" where
  "unserialize_vector rd bs =
     (case unserializeVarSize bs of None \<Rightarrow> None | Some (n, r) \<Rightarrow> unserialize_many rd n r)"

definition unserialize_TxIn :: "bytes \<Rightarrow> (TxIn \<times> bytes) option" where
  "unserialize_TxIn bs =
     (case read_le 32 bs of None \<Rightarrow> None | Some (h, r1) \<Rightarrow>
      case read_le 4 r1 of None \<Rightarrow> None | Some (idx, r2) \<Rightarrow>
      case unserialize_bytes r2 of None \<Rightarrow> None | Some (script, r3) \<Rightarrow>
      case read_le 4 r3 of None \<Rightarrow> None | Some (sq, r4) \<Rightarrow>
        Some (\<lparr>previousOutputHash = word_of_int h, previousOutputIndex = word_of_int idx,
               scriptSig = script, sequence = word_of_int sq, witnessStack = []\<rparr>, r4))"

definition unserialize_TxOut :: "bytes \<Rightarrow> (TxOut \<times> bytes) option" where
  "unserialize_TxOut bs =
     (case read_le 8 bs of None \<Rightarrow> None | Some (v, r1) \<Rightarrow>
      case unserialize_bytes r1 of None \<Rightarrow> None | Some (script, r2) \<Rightarrow>
        Some (\<lparr>txValue = word_of_int v, pkScript = script\<rparr>, r2))"

fun unserialize_witnesses :: "TxIn list \<Rightarrow> bytes \<Rightarrow> (TxIn list \<times> bytes) option" where
  "unserialize_witnesses [] bs = Some ([], bs)"
| "unserialize_witnesses (i # ins) bs =
     (case unserialize_vector unserialize_bytes bs of
        None \<Rightarrow> None
      | Some (st, r) \<Rightarrow>
          (case unserialize_witnesses ins r of
             None \<Rightarrow> None
           | Some (ins', r') \<Rightarrow> Some (i\<lparr>witnessStack := st\<rparr> # ins', r')))"

definition unserialize_Transaction :: "bytes \<Rightarrow> (Transaction \<times> bytes) option" where
  "unserialize_Transaction bs =
     (case read_le 4 bs of None \<Rightarrow> None | Some (ver, r1) \<Rightarrow>
      let hasWitness = (take 2 r1 = [0x00, 0x01]);
          r2 = (if hasWitness then drop 2 r1 else r1)
      in
      case unserialize_vector unserialize_TxIn r2 of None \<Rightarrow> None | Some (ins, r3) \<Rightarrow>
      case unserialize_vector unserialize_TxOut r3 of None \<Rightarrow> None | Some (outs, r4) \<Rightarrow>
      case (if hasWitness then unserialize_witnesses ins r4 else Some (ins, r4)) of
        None \<Rightarrow> None | Some (ins', r5) \<Rightarrow>
      case read_le 4 r5 of None \<Rightarrow> None | Some (lt, r6) \<Rightarrow>
        Some (\<lparr>version = word_of_int ver, txIn = ins', txOut = outs,
               lockTime = word_of_int lt\<rparr>, r6))"

section \<open>Transaction selector (btcLike.h, transactionFilter)\<close>

record TxData =
  HexData :: string
  TxId :: uint256
  WitnessHash :: uint256

text \<open>
  \<^verbatim>\<open>TxTree::Data\<close> is the field \<open>TreeData\<close>; \<^verbatim>\<open>DependsOn\<close> holds an index or
  \<^verbatim>\<open>numeric_limits<size_t>::max()\<close>, which is \<open>None\<close> here.
\<close>

record TxTree =
  TreeData :: TxData
  Fee :: "64 word"
  DependsOn :: "nat option"
  Visited :: bool

definition emptyTxTree :: TxTree where
  "emptyTxTree =
     \<lparr>TreeData = \<lparr>HexData = [], TxId = 0, WitnessHash = 0\<rparr>, Fee = 0,
      DependsOn = None, Visited = False\<rparr>"

type_synonym txidMapTy = "uint256 \<Rightarrow> nat option"

text \<open>
  The three checks at the head of the first loop (lines 77 to 82), and the check of the
  second loop (line 99).
\<close>

definition hasStringMember :: "(string \<times> json) list \<Rightarrow> string \<Rightarrow> bool" where
  "hasStringMember ms name = (HasMember ms name \<and> IsString (Member ms name))"

definition hasInt64Member :: "(string \<times> json) list \<Rightarrow> string \<Rightarrow> bool" where
  "hasInt64Member ms name = (HasMember ms name \<and> IsInt64 (Member ms name))"

definition entryOf :: "(string \<times> json) list \<Rightarrow> TxTree" where
  "entryOf ms =
     \<lparr>TreeData =
        \<lparr>HexData = GetString (Member ms ''data''),
         TxId = SetHex (GetString (Member ms ''txid'')),
         WitnessHash =
           (if HasMember ms ''hash'' then SetHex (GetString (Member ms ''hash'')) else 0)\<rparr>,
      Fee = GetInt64 (Member ms ''fee''),
      DependsOn = None,
      Visited = False\<rparr>"

text \<open>
  First loop (lines 75 to 93), from index \<open>i\<close> on. It returns whether it ran to the end,
  with the tree, the txid map and \<^verbatim>\<open>*blockReward\<close> as they are at that moment.
  \<^verbatim>\<open>blockReward\<close> is an \<^verbatim>\<open>int64_t\<close>: subtraction is modulo \<open>2^64\<close>.
\<close>

fun loadTxTree ::
  "json list \<Rightarrow> nat \<Rightarrow> TxTree list \<Rightarrow> txidMapTy \<Rightarrow> 64 word
     \<Rightarrow> fault + (bool \<times> TxTree list \<times> txidMapTy \<times> 64 word)" where
  "loadTxTree [] i txTree txidMap blockReward = Inr (True, txTree, txidMap, blockReward)"
| "loadTxTree (txSrc # rest) i txTree txidMap blockReward =
     (case txSrc of
        JObject ms \<Rightarrow>
          if \<not> hasStringMember ms ''data'' then Inr (False, txTree, txidMap, blockReward)
          else if \<not> hasStringMember ms ''txid'' then Inr (False, txTree, txidMap, blockReward)
          else if \<not> hasInt64Member ms ''fee'' then Inr (False, txTree, txidMap, blockReward)
          else if HasMember ms ''hash'' \<and> \<not> IsString (Member ms ''hash'')
            then Inl AssertionFailed
          else
            loadTxTree rest (Suc i) (txTree[i := entryOf ms])
              (txidMap(TxId (TreeData (entryOf ms)) \<mapsto> i))
              (blockReward - Fee (entryOf ms))
      | _ \<Rightarrow> Inl AssertionFailed)"

text \<open>The loop over \<^verbatim>\<open>tx.txIn\<close> (lines 115 to 119).\<close>

fun findDependencies :: "TxIn list \<Rightarrow> txidMapTy \<Rightarrow> nat option \<Rightarrow> nat option" where
  "findDependencies [] txidMap dependsOn = dependsOn"
| "findDependencies (txin # rest) txidMap dependsOn =
     findDependencies rest txidMap
       (case txidMap (previousOutputHash txin) of Some j \<Rightarrow> Some j | None \<Rightarrow> dependsOn)"

definition decodeTx :: "string \<Rightarrow> Transaction option" where
  "decodeTx txHexData =
     (case unserialize_Transaction (hex2bin txHexData) of
        Some (tx, []) \<Rightarrow> Some tx
      | _ \<Rightarrow> None)"

text \<open>Second loop (lines 97 to 120), from index \<open>i\<close> on.\<close>

fun resolveDependencies ::
  "json list \<Rightarrow> nat \<Rightarrow> TxTree list \<Rightarrow> txidMapTy \<Rightarrow> fault + (bool \<times> TxTree list)" where
  "resolveDependencies [] i txTree txidMap = Inr (True, txTree)"
| "resolveDependencies (txSrc # rest) i txTree txidMap =
     (case txSrc of
        JObject ms \<Rightarrow>
          if \<not> hasStringMember ms ''data'' then Inr (False, txTree)
          else
            (case decodeTx (GetString (Member ms ''data'')) of
               None \<Rightarrow> Inr (False, txTree)
             | Some tx \<Rightarrow>
                 resolveDependencies rest (Suc i)
                   (txTree[i := (txTree ! i)
                      \<lparr>DependsOn := findDependencies (txIn tx) txidMap (DependsOn (txTree ! i))\<rparr>])
                   txidMap)
      | _ \<Rightarrow> Inl AssertionFailed)"

text \<open>
  \<^verbatim>\<open>addTransaction\<close> is declared in btcLike.h (line 59); its body is not among the
  sources, and it is an argument of the model. It is given the tree, the result vector
  and \<^verbatim>\<open>*blockReward\<close> by pointer or reference, all three writable, and returns them
  here with its \<^verbatim>\<open>bool\<close>; \<open>None\<close> is a call that does not return.
\<close>

type_synonym addTransactionTy =
  "TxTree list \<Rightarrow> nat \<Rightarrow> nat \<Rightarrow> TxData list \<Rightarrow> 64 word
     \<Rightarrow> (bool \<times> TxTree list \<times> TxData list \<times> 64 word) option"

text \<open>Third loop (lines 122 to 126) over the indices still to visit.\<close>

fun addTransactions ::
  "addTransactionTy \<Rightarrow> nat list \<Rightarrow> TxTree list \<Rightarrow> nat \<Rightarrow> TxData list \<Rightarrow> 64 word
     \<Rightarrow> (TxTree list \<times> TxData list \<times> 64 word) option" where
  "addTransactions add [] tree txNumLimit result blockReward = Some (tree, result, blockReward)"
| "addTransactions add (i # rest) tree txNumLimit result blockReward =
     (case add tree i txNumLimit result blockReward of
        None \<Rightarrow> None
      | Some (ok, tree', result', blockReward') \<Rightarrow>
          if ok then addTransactions add rest tree' txNumLimit result' blockReward'
          else Some (tree', result', blockReward'))"

text \<open>
  transactionFilter returns its \<^verbatim>\<open>bool\<close> with the two variables it was given by
  reference, \<^verbatim>\<open>result\<close> and \<^verbatim>\<open>*blockReward\<close>; its first argument is the
  \<^verbatim>\<open>addTransaction\<close> it calls. \<^verbatim>\<open>std::sort\<close> by \<^verbatim>\<open>TxId.GetHex()\<close> is
  \<open>sort_key\<close>, with strings in lexicographic order.
\<close>

definition transactionFilter ::
  "addTransactionTy \<Rightarrow> json list \<Rightarrow> nat \<Rightarrow> TxData list \<Rightarrow> 64 word \<Rightarrow> bool
     \<Rightarrow> fault + (bool \<times> TxData list \<times> 64 word)" where
  "transactionFilter add transactions txNumLimit result blockReward sortByHash =
     (let txNum = length transactions in
      case loadTxTree transactions 0 (replicate txNum emptyTxTree) Map.empty blockReward of
        Inl f \<Rightarrow> Inl f
      | Inr (loaded, txTree1, txidMap, blockReward1) \<Rightarrow>
          if \<not> loaded then Inr (False, result, blockReward1)
          else
            (case resolveDependencies transactions 0 txTree1 txidMap of
               Inl f \<Rightarrow> Inl f
             | Inr (decoded, txTree2) \<Rightarrow>
                 if \<not> decoded then Inr (False, result, blockReward1)
                 else
                   (case addTransactions add [0..<txNum] txTree2 txNumLimit result
                           blockReward1 of
                      None \<Rightarrow> Inl Diverges
                    | Some (txTree3, result3, blockReward3) \<Rightarrow>
                        Inr (True,
                             (if sortByHash then sort_key (\<lambda>d. GetHex (TxId d)) result3
                              else result3),
                             blockReward3))))"

text \<open>
  The dependency table that the first two loops leave behind (the local \<^verbatim>\<open>txTree\<close>
  when the third loop starts), for statements about \<^verbatim>\<open>DependsOn\<close>.
\<close>

definition dependencyTree :: "json list \<Rightarrow> 64 word \<Rightarrow> fault + (bool \<times> TxTree list)" where
  "dependencyTree transactions blockReward =
     (case loadTxTree transactions 0 (replicate (length transactions) emptyTxTree) Map.empty
             blockReward of
        Inl f \<Rightarrow> Inl f
      | Inr (loaded, txTree1, txidMap, blockReward1) \<Rightarrow>
          if \<not> loaded then Inr (False, txTree1)
          else resolveDependencies transactions 0 txTree1 txidMap)"

subsection \<open>Template entries, as the statements about the selector name them\<close>

text \<open>
  The fee and the txid of a template entry; an entry that passes the first loop
  (\<open>wellFormedEntry\<close>: an object whose three fields pass the checks and whose
  \<^verbatim>\<open>hash\<close>, if present, is a string); an entry at which the first loop returns false
  (\<open>rejectedEntry\<close>); an entry whose \<^verbatim>\<open>data\<close> decodes with no byte left over
  (\<open>decodableEntry\<close>).
\<close>

definition templateFee :: "json \<Rightarrow> 64 word" where
  "templateFee tx = (case tx of JObject ms \<Rightarrow> GetInt64 (Member ms ''fee'') | _ \<Rightarrow> 0)"

definition templateTxId :: "json \<Rightarrow> uint256" where
  "templateTxId tx =
     (case tx of JObject ms \<Rightarrow> SetHex (GetString (Member ms ''txid'')) | _ \<Rightarrow> 0)"

definition passesFieldChecks :: "(string \<times> json) list \<Rightarrow> bool" where
  "passesFieldChecks ms =
     (hasStringMember ms ''data'' \<and> hasStringMember ms ''txid'' \<and> hasInt64Member ms ''fee'')"

definition wellFormedEntry :: "json \<Rightarrow> bool" where
  "wellFormedEntry tx =
     (case tx of
        JObject ms \<Rightarrow>
          passesFieldChecks ms \<and>
          (if HasMember ms ''hash'' then IsString (Member ms ''hash'') else True)
      | _ \<Rightarrow> False)"

definition rejectedEntry :: "json \<Rightarrow> bool" where
  "rejectedEntry tx = (case tx of JObject ms \<Rightarrow> \<not> passesFieldChecks ms | _ \<Rightarrow> False)"

definition decodableEntry :: "json \<Rightarrow> bool" where
  "decodableEntry tx =
     (case tx of
        JObject ms \<Rightarrow>
          (case decodeTx (GetString (Member ms ''data'')) of Some t \<Rightarrow> True | None \<Rightarrow> False)
      | _ \<Rightarrow> False)"

definition templateInputs :: "json \<Rightarrow> TxIn list" where
  "templateInputs tx =
     (case tx of
        JObject ms \<Rightarrow>
          (case decodeTx (GetString (Member ms ''data'')) of Some t \<Rightarrow> txIn t | None \<Rightarrow> [])
      | _ \<Rightarrow> [])"

text \<open>
  The template entry that carries a txid: the greatest index with that txid
  (\<open>txidIndex\<close>). An input matches when its \<^verbatim>\<open>previousOutputHash\<close> is the txid of a
  template entry. \<open>firstDependency\<close> follows the spec's words (the index for the first
  matching input), \<open>lastDependency\<close> is the index for the last matching input.
\<close>

definition txidIndex :: "json list \<Rightarrow> uint256 \<Rightarrow> nat option" where
  "txidIndex transactions h =
     (case filter (\<lambda>j. templateTxId (transactions ! j) = h) [0..<length transactions] of
        [] \<Rightarrow> None
      | j # js \<Rightarrow> Some (last (j # js)))"

definition matchingInputs :: "json list \<Rightarrow> TxIn list \<Rightarrow> TxIn list" where
  "matchingInputs transactions ins =
     filter (\<lambda>txin. case txidIndex transactions (previousOutputHash txin) of
                       Some j \<Rightarrow> True | None \<Rightarrow> False) ins"

definition firstDependency :: "json list \<Rightarrow> TxIn list \<Rightarrow> nat option" where
  "firstDependency transactions ins =
     (case matchingInputs transactions ins of
        [] \<Rightarrow> None
      | txin # rest \<Rightarrow> txidIndex transactions (previousOutputHash txin))"

definition lastDependency :: "json list \<Rightarrow> TxIn list \<Rightarrow> nat option" where
  "lastDependency transactions ins =
     (case matchingInputs transactions ins of
        [] \<Rightarrow> None
      | txin # rest \<Rightarrow> txidIndex transactions (previousOutputHash (last (txin # rest))))"

section \<open>The work object (btcLike.h, WorkTy)\<close>

record MiningConfig =
  TxNumLimit :: nat
  FixedExtraNonceSize :: nat
  MutableExtraNonceSize :: nat

record CoinbaseTx =
  Data :: bytes
  ExtraDataOffset :: "32 word"
  ExtraNonceOffset :: "32 word"

text \<open>
  The members of \<^verbatim>\<open>WorkTy\<close> and those of its base \<^verbatim>\<open>StratumSingleWork\<close> that
  btcLike.h reads or writes. \<^verbatim>\<open>Backend_\<close> is a pointer: \<open>None\<close> is \<^verbatim>\<open>nullptr\<close>.
  A member's name loses its trailing underscore (\<^verbatim>\<open>Backend_\<close> is the field
  \<open>Backend\<close>). \<^verbatim>\<open>MiningAddress_\<close> is a \<^verbatim>\<open>Proto::AddressTy\<close>, the 20-byte hash
  of the spec's P2PKH script; \<^verbatim>\<open>CoinbaseMessage_\<close> is a \<^verbatim>\<open>std::string\<close>, kept
  as its bytes.
\<close>

definition AddressTy_size :: nat where
  "AddressTy_size = 20"

record Work =
  Backend :: "nat option"
  MiningCfg :: MiningConfig
  Initialized :: bool
  Height :: "64 word"
  BlockReward :: "64 word"
  TxNum :: "64 word"
  Header :: BlockHeader
  JobVersion :: "32 word"
  SegwitEnabled :: bool
  MerklePath :: "uint256 list"
  MiningAddress :: bytes
  CoinbaseMessage :: bytes
  DevFee :: "64 word"
  DevScriptPubKey :: bytes
  WitnessCommitment :: bytes
  CBTxLegacy :: CoinbaseTx
  CBTxWitness :: CoinbaseTx
  TxHexData :: string

definition emptyCoinbaseTx :: CoinbaseTx where
  "emptyCoinbaseTx = \<lparr>Data = [], ExtraDataOffset = 0, ExtraNonceOffset = 0\<rparr>"

definition nullHeader :: BlockHeader where
  "nullHeader = \<lparr>nVersion = 0, hashPrevBlock = 0, hashMerkleRoot = 0, nTime = 0, nBits = 0,
     nNonce = 0\<rparr>"

text \<open>
  The constructor. \<^verbatim>\<open>StratumSingleWork\<close>'s constructor (stratumWork.h, not among the
  sources) receives \<^verbatim>\<open>backend\<close> and \<^verbatim>\<open>miningCfg\<close>, which \<^verbatim>\<open>ready()\<close> and
  \<^verbatim>\<open>loadFromTemplate\<close> read back as \<^verbatim>\<open>Backend_\<close> and \<^verbatim>\<open>MiningCfg_\<close>.
  Members the constructor does not set are given their in-class initialisers
  (\<^verbatim>\<open>SegwitEnabled = false\<close>, \<^verbatim>\<open>DevFee = 0\<close>) or zero and empty values.
\<close>

definition WorkTy :: "int \<Rightarrow> nat \<Rightarrow> nat option \<Rightarrow> nat \<Rightarrow> MiningConfig \<Rightarrow> bytes \<Rightarrow> bytes \<Rightarrow> Work"
  where
  "WorkTy stratumWorkId uniqueWorkId backend backendIdx miningCfg miningAddress coinbaseMessage =
     (let initialized = (length miningAddress = AddressTy_size) in
      \<lparr>Backend = backend,
       MiningCfg = miningCfg,
       Initialized = initialized,
       Height = 0,
       BlockReward = 0,
       TxNum = 0,
       Header = nullHeader,
       JobVersion = 0,
       SegwitEnabled = False,
       MerklePath = [],
       MiningAddress = (if initialized then miningAddress else replicate AddressTy_size 0),
       CoinbaseMessage = coinbaseMessage,
       DevFee = 0,
       DevScriptPubKey = [],
       WitnessCommitment = [],
       CBTxLegacy = emptyCoinbaseTx,
       CBTxWitness = emptyCoinbaseTx,
       TxHexData = []\<rparr>)"

definition ready :: "Work \<Rightarrow> bool" where
  "ready w = (case Backend w of Some b \<Rightarrow> True | None \<Rightarrow> False)"

definition expectedWork :: "Work \<Rightarrow> real" where
  "expectedWork w = getDifficulty (nBits (Header w))"

subsection \<open>buildCoinbaseTx\<close>

definition OP_DUP :: byte where "OP_DUP = 0x76"
definition OP_HASH160 :: byte where "OP_HASH160 = 0xA9"
definition OP_EQUALVERIFY :: byte where "OP_EQUALVERIFY = 0x88"
definition OP_CHECKSIG :: byte where "OP_CHECKSIG = 0xAC"

text \<open>
  The coinbase input as it is when the offsets are taken (lines 277 to 288): hash, index
  and witness stack are set, the scriptSig is still empty and the sequence is not yet
  assigned.
\<close>

definition coinbaseTxIn_initial :: "Work \<Rightarrow> TxIn" where
  "coinbaseTxIn_initial w =
     \<lparr>previousOutputHash = 0,
      previousOutputIndex = 0xFFFFFFFF,
      scriptSig = [],
      sequence = 0,
      witnessStack = (if SegwitEnabled w then [replicate 32 0] else [])\<rparr>"

definition coinbaseTx_initial :: "Work \<Rightarrow> Transaction" where
  "coinbaseTx_initial w =
     \<lparr>version = (if SegwitEnabled w then 2 else 1),
      txIn = [coinbaseTxIn_initial w],
      txOut = [],
      lockTime = 0\<rparr>"

text \<open>The scriptSig scratch stream up to the extranonce position (lines 291 to 299).\<close>

definition scriptsig_prefix :: "Work \<Rightarrow> bytes option \<Rightarrow> bytes" where
  "scriptsig_prefix w coinbaseData =
     serializeForCoinbase (Height w)
     @ (case coinbaseData of Some d \<Rightarrow> d | None \<Rightarrow> [])
     @ CoinbaseMessage w"

definition coinbase_scriptSig :: "Work \<Rightarrow> bytes option \<Rightarrow> MiningConfig \<Rightarrow> bytes" where
  "coinbase_scriptSig w coinbaseData miningCfg =
     scriptsig_prefix w coinbaseData
     @ reserve (FixedExtraNonceSize miningCfg + MutableExtraNonceSize miningCfg)"

definition p2pkh :: "bytes \<Rightarrow> bytes" where
  "p2pkh address =
     [OP_DUP, OP_HASH160, of_nat AddressTy_size] @ address @ [OP_EQUALVERIFY, OP_CHECKSIG]"

text \<open>The local \<^verbatim>\<open>coinbaseTx\<close> when it is serialized (line 341).\<close>

definition coinbaseTx_built :: "Work \<Rightarrow> bytes option \<Rightarrow> MiningConfig \<Rightarrow> Transaction" where
  "coinbaseTx_built w coinbaseData miningCfg =
     (let txIn0 = (coinbaseTxIn_initial w)
            \<lparr>scriptSig := coinbase_scriptSig w coinbaseData miningCfg,
             sequence := 0xFFFFFFFF\<rparr>;
          payout = \<lparr>txValue = BlockReward w, pkScript = p2pkh (MiningAddress w)\<rparr>;
          dev = (if DevFee w \<noteq> 0
                 then [\<lparr>txValue = DevFee w, pkScript = DevScriptPubKey w\<rparr>] else []);
          commitment = (if SegwitEnabled w
                 then [\<lparr>txValue = 0, pkScript = WitnessCommitment w\<rparr>] else [])
      in (coinbaseTx_initial w)
           \<lparr>txIn := [txIn0], txOut := [payout] @ dev @ commitment, lockTime := 0\<rparr>)"

text \<open>
  buildCoinbaseTx returns the two \<^verbatim>\<open>CoinbaseTx\<close> it was given by reference. The
  offsets are \<^verbatim>\<open>static_cast<unsigned>\<close> of a \<^verbatim>\<open>size_t\<close> sum; the serializer writes
  at the end of the \<^verbatim>\<open>Data\<close> stream it is given.
\<close>

definition buildCoinbaseTx ::
  "Work \<Rightarrow> bytes option \<Rightarrow> MiningConfig \<Rightarrow> CoinbaseTx \<Rightarrow> CoinbaseTx \<Rightarrow> CoinbaseTx \<times> CoinbaseTx"
  where
  "buildCoinbaseTx w coinbaseData miningCfg legacy witness =
     (let extraDataOffset = length (serializeForCoinbase (Height w));
          offsetOf = length (scriptsig_prefix w coinbaseData);
          tx0 = coinbaseTx_initial w;
          coinbaseTx = coinbaseTx_built w coinbaseData miningCfg
      in (legacy\<lparr>ExtraNonceOffset := of_nat (offsetOf + getFirstScriptSigOffset tx0 False),
                 ExtraDataOffset := of_nat (extraDataOffset + getFirstScriptSigOffset tx0 False),
                 Data := Data legacy @ serialize_Transaction coinbaseTx False\<rparr>,
          witness\<lparr>ExtraNonceOffset := of_nat (offsetOf + getFirstScriptSigOffset tx0 True),
                  ExtraDataOffset := of_nat (extraDataOffset + getFirstScriptSigOffset tx0 True),
                  Data := Data witness @ serialize_Transaction coinbaseTx True\<rparr>))"

subsection \<open>buildBlock\<close>

text \<open>
  buildBlockImpl resets the output, serializes the header and the transaction count into
  a 1024-byte scratch buffer (they take at most 89 bytes), and appends the hex of that
  buffer, the hex of the witness coinbase and \<^verbatim>\<open>TxHexData\<close>.
\<close>

definition buildBlockImpl :: "Work \<Rightarrow> BlockHeader \<Rightarrow> CoinbaseTx \<Rightarrow> string" where
  "buildBlockImpl w header witness =
     (let stream = serialize_BlockHeader header @ serializeVarSize (TxNum w + 1)
      in bin2hexLowerCase stream @ bin2hexLowerCase (Data witness) @ TxHexData w)"

definition buildBlock :: "Work \<Rightarrow> string" where
  "buildBlock w = buildBlockImpl w (Header w) (CBTxWitness w)"

subsection \<open>loadFromTemplate\<close>

text \<open>
  Functions that loadFromTemplate calls and whose bodies are not among the sources are
  arguments of the model, each with the variables it is given by writable reference
  among its results: \<^verbatim>\<open>addTransaction\<close> (above), \<^verbatim>\<open>transactionChecker\<close> with
  its \<^verbatim>\<open>bool\<close> and the result vector, \<^verbatim>\<open>isSegwitEnabled\<close>, and
  \<^verbatim>\<open>calculateWitnessCommitment\<close>, which is given the processed transactions and
  the \<^verbatim>\<open>WitnessCommitment\<close> stream and writes the error message when it returns
  false (\<open>Inl\<close>). The checker and the SegWit test read rapidjson values and may fail
  an assertion. The merkle path of the coinbase and the script of a miner-fund address
  are hash computations, arguments as well. The template goes to these functions as a
  \<^verbatim>\<open>rapidjson::Value &\<close>, rapidjson's readers not being \<^verbatim>\<open>const\<close>; they are
  taken to read it only.
\<close>

record externals =
  addTransaction :: addTransactionTy
  transactionChecker :: "json list \<Rightarrow> TxData list \<Rightarrow> fault + (bool \<times> TxData list)"
  isSegwitEnabled :: "json list \<Rightarrow> fault + bool"
  calculateWitnessCommitment ::
    "(string \<times> json) list \<Rightarrow> bool \<Rightarrow> TxData list \<Rightarrow> bytes
       \<Rightarrow> (string \<times> bytes) + (TxData list \<times> bytes)"
  calculateMerklePath :: "TxData list \<Rightarrow> uint256 list"
  minerFundScript :: "string \<Rightarrow> bytes"

text \<open>
  Modelled from the spec: \<^verbatim>\<open>processCoinbaseDevReward\<close>, \<^verbatim>\<open>processMinerFund\<close> and
  \<^verbatim>\<open>collectTransactions\<close> are declared in btcLike.h (lines 62, 63 and 65), their
  bodies are not among the sources. External grafts: a present \<open>coinbasedevreward\<close>
  gives \<open>DevFee\<close> and \<open>DevScriptPubKey\<close>; a present \<open>minerfund\<close> with
  \<open>minimumvalue\<close> and \<open>addresses[0]\<close> sets \<open>DevFee\<close>, takes it from the block reward
  and derives the script from the first address. Section 3: the hex payloads of the
  selected transactions are concatenated for emission.
\<close>

definition processCoinbaseDevReward ::
  "(string \<times> json) list \<Rightarrow> 64 word \<times> bytes \<Rightarrow> 64 word \<times> bytes" where
  "processCoinbaseDevReward blockTemplate dev =
     (case FindMember blockTemplate ''coinbasedevreward'' of
        Some (JObject devReward) \<Rightarrow>
          if hasInt64Member devReward ''value'' \<and> hasStringMember devReward ''scriptpubkey''
          then (GetInt64 (Member devReward ''value''),
                hex2bin (GetString (Member devReward ''scriptpubkey'')))
          else dev
      | _ \<Rightarrow> dev)"

definition processMinerFund ::
  "externals \<Rightarrow> (string \<times> json) list \<Rightarrow> 64 word \<times> 64 word \<times> bytes
     \<Rightarrow> 64 word \<times> 64 word \<times> bytes" where
  "processMinerFund ext blockTemplate st =
     (case FindMember blockTemplate ''minerfund'' of
        Some (JObject minerFund) \<Rightarrow>
          (case FindMember minerFund ''addresses'' of
             Some (JArray (JString address # others)) \<Rightarrow>
               if hasInt64Member minerFund ''minimumvalue''
               then (fst st - GetInt64 (Member minerFund ''minimumvalue''),
                     GetInt64 (Member minerFund ''minimumvalue''),
                     minerFundScript ext address)
               else st
           | _ \<Rightarrow> st)
      | _ \<Rightarrow> st)"

definition collectTransactions :: "externals \<Rightarrow> TxData list \<Rightarrow> Work \<Rightarrow> Work" where
  "collectTransactions ext processedTransactions w =
     w\<lparr>TxHexData := concat (map HexData processedTransactions),
       MerklePath := calculateMerklePath ext processedTransactions,
       TxNum := of_nat (length processedTransactions)\<rparr>"

text \<open>The two field checks of loadFromTemplate (lines 186 to 195 and 204 to 212).\<close>

definition requiredFieldsPresent :: "(string \<times> json) list \<Rightarrow> bool" where
  "requiredFieldsPresent blockTemplate =
     (HasMember blockTemplate ''height'' \<and> HasMember blockTemplate ''version'' \<and>
      HasMember blockTemplate ''previousblockhash'' \<and> HasMember blockTemplate ''curtime'' \<and>
      HasMember blockTemplate ''bits'' \<and> HasMember blockTemplate ''coinbasevalue'' \<and>
      HasMember blockTemplate ''transactions'' \<and> IsArray (Member blockTemplate ''transactions''))"

definition requiredFieldsTyped :: "(string \<times> json) list \<Rightarrow> bool" where
  "requiredFieldsTyped blockTemplate =
     (IsUint64 (Member blockTemplate ''height'') \<and> IsUint (Member blockTemplate ''version'') \<and>
      IsString (Member blockTemplate ''previousblockhash'') \<and>
      IsUint (Member blockTemplate ''curtime'') \<and> IsString (Member blockTemplate ''bits'') \<and>
      IsInt64 (Member blockTemplate ''coinbasevalue''))"

text \<open>
  The checker-or-filter step (lines 221 to 227): \<open>txFilter\<close> chooses the path. Both
  calls are statements: the \<^verbatim>\<open>bool\<close> that transactionFilter or transactionChecker
  returns is dropped, and what stays is the processed transactions and, on the filter
  path, \<^verbatim>\<open>BlockReward_\<close>.
\<close>

definition txFilterOf :: "Work \<Rightarrow> json list \<Rightarrow> bool" where
  "txFilterOf w transactions =
     (TxNumLimit (MiningCfg w) \<noteq> 0 \<and> length transactions > TxNumLimit (MiningCfg w))"

definition processTransactions ::
  "externals \<Rightarrow> Work \<Rightarrow> json list \<Rightarrow> string \<Rightarrow> fault + (TxData list \<times> 64 word)" where
  "processTransactions ext w transactions ticker =
     (let needSortByHash = (ticker = ''BCHN'' \<or> ticker = ''BCHABC'') in
      if txFilterOf w transactions
      then (case transactionFilter (addTransaction ext) transactions (TxNumLimit (MiningCfg w)) []
                   (BlockReward w) needSortByHash of
              Inl f \<Rightarrow> Inl f
            | Inr (ok, processedTransactions, blockReward) \<Rightarrow>
                Inr (processedTransactions, blockReward))
      else (case transactionChecker ext transactions [] of
              Inl f \<Rightarrow> Inl f
            | Inr (ok, processedTransactions) \<Rightarrow>
                Inr (processedTransactions, BlockReward w)))"

text \<open>The header as lines 244 to 249 fill it.\<close>

definition headerOfTemplate :: "(string \<times> json) list \<Rightarrow> BlockHeader" where
  "headerOfTemplate blockTemplate =
     \<lparr>nVersion = GetUint (Member blockTemplate ''version''),
      hashPrevBlock = SetHex (GetString (Member blockTemplate ''previousblockhash'')),
      hashMerkleRoot = 0,
      nTime = GetUint (Member blockTemplate ''curtime''),
      nBits = ucast (strtoul16 (GetString (Member blockTemplate ''bits''))),
      nNonce = 0\<rparr>"

text \<open>
  Lines 214 to 218: height, block reward and the SegWit flag that
  \<^verbatim>\<open>isSegwitEnabled\<close> returned.
\<close>

definition beginLoad :: "Work \<Rightarrow> (string \<times> json) list \<Rightarrow> bool \<Rightarrow> Work" where
  "beginLoad w blockTemplate segwitEnabled =
     w\<lparr>Height := GetUint64 (Member blockTemplate ''height''),
       BlockReward := GetInt64 (Member blockTemplate ''coinbasevalue''),
       SegwitEnabled := segwitEnabled\<rparr>"

text \<open>
  Lines 229 to 257, once the transactions are processed. When the witness commitment
  fails, loadFromTemplate returns false with the message in \<^verbatim>\<open>error\<close>.
\<close>

definition finishLoad ::
  "externals \<Rightarrow> Work \<Rightarrow> (string \<times> json) list \<Rightarrow> bool \<Rightarrow> TxData list \<Rightarrow> string
     \<Rightarrow> bool \<times> Work \<times> string" where
  "finishLoad ext w blockTemplate txFilter processedTransactions error =
     (let dev = processCoinbaseDevReward blockTemplate (DevFee w, DevScriptPubKey w);
          fund = processMinerFund ext blockTemplate (BlockReward w, fst dev, snd dev);
          w1 = w\<lparr>BlockReward := fst fund, DevFee := fst (snd fund),
                 DevScriptPubKey := snd (snd fund)\<rparr>;
          commitment =
            (if SegwitEnabled w1
             then calculateWitnessCommitment ext blockTemplate txFilter processedTransactions
                    (WitnessCommitment w1)
             else Inr (processedTransactions, WitnessCommitment w1))
      in case commitment of
           Inl (message, witnessCommitment) \<Rightarrow>
             (False, w1\<lparr>WitnessCommitment := witnessCommitment\<rparr>, message)
         | Inr (processedTransactions', witnessCommitment) \<Rightarrow>
             (let w2 = w1\<lparr>WitnessCommitment := witnessCommitment,
                          Header := headerOfTemplate blockTemplate,
                          JobVersion := nVersion (headerOfTemplate blockTemplate)\<rparr>;
                  cb = buildCoinbaseTx w2 None (MiningCfg w2) (CBTxLegacy w2) (CBTxWitness w2);
                  w3 = w2\<lparr>CBTxLegacy := fst cb, CBTxWitness := snd cb\<rparr>
              in (True, collectTransactions ext processedTransactions' w3, error)))"

text \<open>
  loadFromTemplate returns its \<^verbatim>\<open>bool\<close> with the work object and the \<^verbatim>\<open>error\<close>
  string as it leaves them.
\<close>

definition loadFromTemplate ::
  "externals \<Rightarrow> Work \<Rightarrow> json \<Rightarrow> string \<Rightarrow> string \<Rightarrow> fault + (bool \<times> Work \<times> string)"
  where
  "loadFromTemplate ext w document ticker error =
     (case document of
        JObject doc \<Rightarrow>
          (case FindMember doc ''result'' of
             Some (JObject blockTemplate) \<Rightarrow>
               if \<not> requiredFieldsPresent blockTemplate then Inr (False, w, ''missing data'')
               else if \<not> requiredFieldsTyped blockTemplate
                 then Inr (False, w, ''height or header data invalid format'')
               else
                 (let transactions = GetArray (Member blockTemplate ''transactions'') in
                  case isSegwitEnabled ext transactions of
                    Inl f \<Rightarrow> Inl f
                  | Inr segwitEnabled \<Rightarrow>
                      (let w1 = beginLoad w blockTemplate segwitEnabled
                       in case processTransactions ext w1 transactions ticker of
                            Inl f \<Rightarrow> Inl f
                          | Inr (processedTransactions, blockReward) \<Rightarrow>
                              Inr (finishLoad ext (w1\<lparr>BlockReward := blockReward\<rparr>)
                                     blockTemplate (txFilterOf w1 transactions)
                                     processedTransactions error)))
           | _ \<Rightarrow> Inr (False, w, ''no result''))
      | _ \<Rightarrow> Inl AssertionFailed)"

subsection \<open>Operations on a loaded work\<close>






section \<open>Example templates\<close>

text \<open>
  Concrete inputs for the statements below. \<open>example_parent_hex\<close> is a version-1
  transaction with one input that spends an output outside the template and no output;
  \<open>example_child_hex\<close> has two inputs, spending the transactions with txid 1 and
  txid 2, in this order. \<open>example_transactions\<close> is a template of three entries with
  txids 1, 2, 3 and fees 10, 20, 30, the third being the child.
\<close>

definition example_parent_hex :: string where
  "example_parent_hex =
     ''0100000001eeeeeeeeeeeeeeeeeeeeeeeeeeeeeeeeeeeeeeeeeeeeeeeeeeeeee'' @
     ''eeeeeeeeee0000000000ffffffff0000000000''"

definition example_child_hex :: string where
  "example_child_hex =
     ''0100000002010000000000000000000000000000000000000000000000000000'' @
     ''00000000000000000000ffffffff020000000000000000000000000000000000'' @
     ''00000000000000000000000000000000000000ffffffff0000000000''"

definition example_txid :: "nat \<Rightarrow> string" where
  "example_txid n = replicate 63 CHR ''0'' @ [hexDigitLower (of_nat n)]"

definition example_entry :: "string \<Rightarrow> nat \<Rightarrow> int \<Rightarrow> json" where
  "example_entry hex n fee =
     JObject [(''data'', JString hex), (''txid'', JString (example_txid n)), (''fee'', JInt fee)]"

definition example_transactions :: "json list" where
  "example_transactions =
     [example_entry example_parent_hex 1 10,
      example_entry example_parent_hex 2 20,
      example_entry example_child_hex 3 30]"

text \<open>The same template with the second entry lacking its \<^verbatim>\<open>fee\<close>.\<close>

definition example_transactions_no_fee :: "json list" where
  "example_transactions_no_fee =
     [example_entry example_parent_hex 1 10,
      JObject [(''data'', JString example_parent_hex), (''txid'', JString (example_txid 2))],
      example_entry example_child_hex 3 30]"

text \<open>The same template with the second entry's \<^verbatim>\<open>data\<close> cut to its version bytes.\<close>

definition example_transactions_truncated :: "json list" where
  "example_transactions_truncated =
     [example_entry example_parent_hex 1 10,
      example_entry ''01000000'' 2 20,
      example_entry example_child_hex 3 30]"

text \<open>
  A mining configuration without a transaction cap and with a 4 + 4 byte extranonce, a
  work object with a 20-byte address and the coinbase message \<^verbatim>\<open>pool\<close>, and one
  at height 1 whose coinbase message is 251 bytes long.
\<close>

definition example_config :: MiningConfig where
  "example_config = \<lparr>TxNumLimit = 0, FixedExtraNonceSize = 4, MutableExtraNonceSize = 4\<rparr>"

definition example_work :: Work where
  "example_work =
     WorkTy 1 1 (Some 1) 0 example_config (replicate 20 0x11) [0x70, 0x6f, 0x6f, 0x6c]"

definition example_work_long_message :: Work where
  "example_work_long_message =
     (WorkTy 1 1 (Some 1) 0 example_config (replicate 20 0x11) (replicate 251 0x41))
       \<lparr>Height := 1\<rparr>"

text \<open>
  A block template around a transaction array.
\<close>

definition example_blockTemplate :: "json list \<Rightarrow> (string \<times> json) list" where
  "example_blockTemplate transactions =
     [(''height'', JInt 700000),
      (''version'', JInt 536870912),
      (''previousblockhash'', JString (example_txid 7)),
      (''curtime'', JInt 1600000000),
      (''bits'', JString ''170b2c70''),
      (''coinbasevalue'', JInt 625000000),
      (''transactions'', JArray transactions)]"

definition example_document :: "json list \<Rightarrow> json" where
  "example_document transactions =
     JObject [(''result'', JObject (example_blockTemplate transactions))]"


text \<open>
  Modelled from the spec: instances of \<^verbatim>\<open>isSegwitEnabled\<close> and
  \<^verbatim>\<open>transactionChecker\<close> (declared at lines 60 and 61, bodies not among the sources)
  for the examples. Section 4.F: SegWit is enabled iff some transaction reports a hash
  distinct from its txid (hashes compare in binary form, section 3). Section 4.D: the
  checker validates fields and copies all transactions without dependency analysis. An
  entry that is not an object fails rapidjson's assertion, as in transactionFilter.
\<close>

fun isSegwitEnabled_spec :: "json list \<Rightarrow> fault + bool" where
  "isSegwitEnabled_spec [] = Inr False"
| "isSegwitEnabled_spec (txSrc # rest) =
     (case txSrc of
        JObject ms \<Rightarrow>
          if hasStringMember ms ''txid'' \<and> hasStringMember ms ''hash'' \<and>
             SetHex (GetString (Member ms ''hash'')) \<noteq> SetHex (GetString (Member ms ''txid''))
          then Inr True
          else isSegwitEnabled_spec rest
      | _ \<Rightarrow> Inl AssertionFailed)"

fun transactionChecker_spec :: "json list \<Rightarrow> TxData list \<Rightarrow> fault + (bool \<times> TxData list)" where
  "transactionChecker_spec [] result = Inr (True, result)"
| "transactionChecker_spec (txSrc # rest) result =
     (case txSrc of
        JObject ms \<Rightarrow>
          if hasStringMember ms ''data'' \<and> hasStringMember ms ''txid''
          then transactionChecker_spec rest
                 (result @
                   [\<lparr>HexData = GetString (Member ms ''data''),
                     TxId = SetHex (GetString (Member ms ''txid'')),
                     WitnessHash =
                       (if hasStringMember ms ''hash''
                        then SetHex (GetString (Member ms ''hash'')) else 0)\<rparr>])
          else Inr (False, result)
      | _ \<Rightarrow> Inl AssertionFailed)"

text \<open>
  Collaborators for the examples, which all take the checker path: an
  \<^verbatim>\<open>addTransaction\<close> that is never called, no witness commitment, and as merkle path
  the txid of the first selected transaction (the coinbase's sibling on the lowest
  level). \<open>example_notify\<close> is a notify binding that writes the job version and leaves
  the header as it is.
\<close>

definition example_externals :: externals where
  "example_externals =
     \<lparr>addTransaction = (\<lambda>tree index txNumLimit result blockReward. None),
      transactionChecker = transactionChecker_spec,
      isSegwitEnabled = isSegwitEnabled_spec,
      calculateWitnessCommitment =
        (\<lambda>blockTemplate txFilter processed witnessCommitment.
           Inl (''no witness commitment'', witnessCommitment)),
      calculateMerklePath = (\<lambda>processed. map TxId (take 1 processed)),
      minerFundScript = (\<lambda>address. [])\<rparr>"


section \<open>Properties of getDifficulty\<close>

declare shiftUp.simps [simp del] shiftDown.simps [simp del]
  shiftUp_counted.simps [simp del] shiftDown_counted.simps [simp del]

lemma shiftUp_counted_state: "fst (shiftUp_counted s d n) = shiftUp s d"
proof (induction s d n rule: shiftUp_counted.induct)
  case (1 s d n)
  then show ?case
    by (subst shiftUp_counted.simps, subst shiftUp.simps) simp
qed

lemma shiftDown_counted_state: "fst (shiftDown_counted s d n) = shiftDown s d"
proof (induction s d n rule: shiftDown_counted.induct)
  case (1 s d n)
  then show ?case
    by (subst shiftDown_counted.simps, subst shiftDown.simps) simp
qed

lemma shiftUp_counted_count:
  "snd (shiftUp_counted s d n) = n + nat (29 - s) \<and> fst (fst (shiftUp_counted s d n)) = max s 29"
proof (induction s d n rule: shiftUp_counted.induct)
  case (1 s d n)
  show ?case
  proof (cases "s < 29")
    case True
    with 1 show ?thesis
      by (subst (1 2) shiftUp_counted.simps) (simp add: nat_diff_distrib max_def)
  next
    case False
    then show ?thesis
      by (subst (1 2) shiftUp_counted.simps) (simp add: max_def)
  qed
qed

lemma shiftDown_counted_count:
  "snd (shiftDown_counted s d n) = n + nat (s - 29) \<and> fst (fst (shiftDown_counted s d n)) = min s 29"
proof (induction s d n rule: shiftDown_counted.induct)
  case (1 s d n)
  show ?case
  proof (cases "s > 29")
    case True
    with 1 show ?thesis
      by (subst (1 2) shiftDown_counted.simps) (simp add: nat_diff_distrib min_def)
  next
    case False
    then show ?thesis
      by (subst (1 2) shiftDown_counted.simps) (simp add: min_def)
  qed
qed

lemma nShift_of_range: "0 \<le> nShift_of bits \<and> nShift_of bits \<le> 255"
proof -
  have "drop_bit 24 bits AND 0xff \<le> (0xff :: 32 word)"
    by (rule word_and_le1)
  then have "uint (drop_bit 24 bits AND 0xff) \<le> uint (0xff :: 32 word)"
    by (simp only: word_le_def)
  then show ?thesis
    by (simp add: nShift_of_def)
qed

lemma getDifficulty_counted_value: "snd (fst (getDifficulty_counted bits)) = getDifficulty bits"
proof -
  obtain s1 d1 n1 where up: "shiftUp_counted (nShift_of bits)
      (real_of_int 0x0000ffff / real_of_int (mantissa_of bits)) 0 = ((s1, d1), n1)"
    by (metis prod.exhaust)
  obtain s2 d2 n2 where down: "shiftDown_counted s1 d1 n1 = ((s2, d2), n2)"
    by (metis prod.exhaust)
  have up': "shiftUp (nShift_of bits)
      (real_of_int 0x0000ffff / real_of_int (mantissa_of bits)) = (s1, d1)"
    using shiftUp_counted_state [of "nShift_of bits"
        "real_of_int 0x0000ffff / real_of_int (mantissa_of bits)" 0] up by simp
  have down': "shiftDown s1 d1 = (s2, d2)"
    using shiftDown_counted_state [of s1 d1 n1] down by simp
  show ?thesis
    using up down up' down'
    by (simp add: getDifficulty_counted_def getDifficulty_def Let_def)
qed

text \<open>
  The difficulty of the compact target 0x1d00ffff is 1; one exponent step below and
  above it the loops multiply and divide by 256 once.
\<close>

lemma getDifficulty_unit: "getDifficulty 0x1d00ffff = 1"
  by (simp add: getDifficulty_def nShift_of_def mantissa_of_def shiftUp.simps shiftDown.simps)

lemma getDifficulty_shifted:
  "getDifficulty 0x1c00ffff = 256 \<and> getDifficulty 0x1e00ffff = 1 / 256"
  by (simp add: getDifficulty_def nShift_of_def mantissa_of_def shiftUp.simps shiftDown.simps)

text \<open>
  C10. getDifficulty terminates for every 32-bit \<open>bits\<close>: both loops are total functions
  (their termination is proved with the distance of nShift to 29 as measure). Counting
  executed loop bodies, the two loops together run exactly
  \<open>|((bits >> 24) & 0xff) - 29|\<close> times, hence at most that many, they leave nShift at 29,
  and the counted run computes the value of getDifficulty.
\<close>

theorem getDifficulty_terminates_within_distance:
  "snd (getDifficulty_counted bits) = nat \<bar>nShift_of bits - 29\<bar>
   \<and> snd (getDifficulty_counted bits) \<le> nat \<bar>uint (drop_bit 24 bits AND 0xff) - 29\<bar>
   \<and> fst (fst (getDifficulty_counted bits)) = 29
   \<and> snd (fst (getDifficulty_counted bits)) = getDifficulty bits"
proof -
  obtain s1 d1 n1 where up: "shiftUp_counted (nShift_of bits)
      (real_of_int 0x0000ffff / real_of_int (mantissa_of bits)) 0 = ((s1, d1), n1)"
    by (metis prod.exhaust)
  obtain s2 d2 n2 where down: "shiftDown_counted s1 d1 n1 = ((s2, d2), n2)"
    by (metis prod.exhaust)
  have n1: "n1 = nat (29 - nShift_of bits)" and s1: "s1 = max (nShift_of bits) 29"
    using shiftUp_counted_count [of "nShift_of bits"
        "real_of_int 0x0000ffff / real_of_int (mantissa_of bits)" 0] up by simp_all
  have n2: "n2 = n1 + nat (s1 - 29)" and s2: "s2 = min s1 29"
    using shiftDown_counted_count [of s1 d1 n1] down by simp_all
  have res: "getDifficulty_counted bits = ((s2, d2), n2)"
    using up down by (simp add: getDifficulty_counted_def Let_def)
  have cnt: "n2 = nat \<bar>nShift_of bits - 29\<bar>"
    using n1 n2 s1 by (simp add: max_def abs_if)
  have fin: "s2 = 29"
    using s1 s2 by (simp add: max_def min_def)
  show ?thesis
    using res cnt fin getDifficulty_counted_value [of bits]
    by (simp add: nShift_of_def)
qed

section \<open>Properties of the constructor and of ready\<close>

text \<open>
  C6, as the spec states it, fails: a work constructed with a 3-byte address and a
  non-null backend is not initialized, and \<^verbatim>\<open>ready()\<close> returns true.
\<close>

theorem ready_with_mismatched_address_counterexample:
  "length [1, 2, 3 :: byte] \<noteq> AddressTy_size
   \<and> \<not> Initialized (WorkTy 1 1 (Some 1) 0 example_config [1, 2, 3] [])
   \<and> ready (WorkTy 1 1 (Some 1) 0 example_config [1, 2, 3] [])"
  by (simp add: AddressTy_size_def ready_def WorkTy_def)

text \<open>
  C6 (amended). For every WorkTy constructed with a mining address whose byte size
  differs from the chain's AddressTy size, the work is marked uninitialized;
  \<^verbatim>\<open>ready()\<close> does not read that mark and returns true exactly when the backend
  pointer is not null.
\<close>

theorem mismatched_address_uninitialized:
  "length miningAddress \<noteq> AddressTy_size \<Longrightarrow>
     \<not> Initialized (WorkTy stratumWorkId uniqueWorkId backend backendIdx miningCfg
           miningAddress coinbaseMessage)
     \<and> ready (WorkTy stratumWorkId uniqueWorkId backend backendIdx miningCfg
           miningAddress coinbaseMessage) = (backend \<noteq> None)"
  by (simp add: ready_def WorkTy_def Let_def split: option.splits)

theorem mismatched_address_uninitialized_witness:
  "length [1, 2, 3 :: byte] \<noteq> AddressTy_size
   \<and> \<not> Initialized (WorkTy 1 1 None 0 example_config [1, 2, 3] [])
   \<and> ready (WorkTy 1 1 None 0 example_config [1, 2, 3] []) = ((None :: nat option) \<noteq> None)"
proof -
  have h: "length [1, 2, 3 :: byte] \<noteq> AddressTy_size"
    by (simp add: AddressTy_size_def)
  from mismatched_address_uninitialized [OF h, of 1 1 None 0 example_config "[]"] h
  show ?thesis by blast
qed

section \<open>Properties of buildCoinbaseTx\<close>

lemma length_le_bytes [simp]: "length (le_bytes n v) = n"
  by (induction n arbitrary: v) simp_all

lemma serializeVarSize_small: "n < 253 \<Longrightarrow> serializeVarSize (of_nat n) = [ucast (of_nat n :: 64 word)]"
  by (simp add: serializeVarSize_def word_less_nat_alt unat_of_nat)

lemma serializeVarSize_1: "serializeVarSize 1 = [1]"
  by (simp add: serializeVarSize_def)

lemma txIn_coinbaseTx_built:
  "txIn (coinbaseTx_built w cd cfg) =
     [(coinbaseTxIn_initial w)\<lparr>scriptSig := coinbase_scriptSig w cd cfg, sequence := 0xFFFFFFFF\<rparr>]"
  by (simp add: coinbaseTx_built_def Let_def)

lemma Data_buildCoinbaseTx:
  "Data (fst (buildCoinbaseTx w cd cfg legacy witness))
     = Data legacy @ serialize_Transaction (coinbaseTx_built w cd cfg) False"
  "Data (snd (buildCoinbaseTx w cd cfg legacy witness))
     = Data witness @ serialize_Transaction (coinbaseTx_built w cd cfg) True"
  by (simp_all add: buildCoinbaseTx_def Let_def)

text \<open>
  The decoder reads back what the serializer writes, in both forms, for the coinbase of
  the example work.
\<close>

lemma example_coinbase_roundtrip:
  "unserialize_Transaction
      (serialize_Transaction (coinbaseTx_built example_work None example_config) False)
     = Some (coinbaseTx_built example_work None example_config, [])
   \<and> unserialize_Transaction
      (serialize_Transaction
         (coinbaseTx_built (example_work\<lparr>SegwitEnabled := True\<rparr>) None example_config) True)
     = Some (coinbaseTx_built (example_work\<lparr>SegwitEnabled := True\<rparr>) None example_config, [])"
  by code_simp

text \<open>
  C3, as the spec states it, fails for a negative \<^verbatim>\<open>DevFee\<close>: the test is
  \<^verbatim>\<open>if (DevFee)\<close>, so the coinbase of a work whose \<^verbatim>\<open>DevFee\<close> is -1 has a second
  output of value -1 although \<^verbatim>\<open>DevFee > 0\<close> is false.
\<close>

theorem dev_output_for_negative_DevFee_counterexample:
  "\<not> 0 <s DevFee (example_work\<lparr>DevFee := - 1\<rparr>)
   \<and> \<not> SegwitEnabled (example_work\<lparr>DevFee := - 1\<rparr>)
   \<and> map txValue (txOut (coinbaseTx_built (example_work\<lparr>DevFee := - 1\<rparr>) None example_config))
       = [0, - 1]"
  by (simp add: example_work_def WorkTy_def coinbaseTx_built_def coinbaseTx_initial_def Let_def)

text \<open>
  C3 (amended). For every work on which buildCoinbaseTx runs, the transaction it
  serializes into \<^verbatim>\<open>legacy.Data\<close> and \<^verbatim>\<open>witness.Data\<close> has version 2 if SegWit
  is enabled and 1 otherwise; exactly one input with previousOutputHash zero,
  previousOutputIndex 0xFFFFFFFF, sequence 0xFFFFFFFF and, when SegWit is enabled, a
  witness stack of one 32-byte all-zero entry (an empty stack otherwise); the outputs,
  in order: the P2PKH payout to \<^verbatim>\<open>MiningAddress_\<close> with value \<^verbatim>\<open>BlockReward_\<close>,
  then, if \<^verbatim>\<open>DevFee\<close> is not zero, an output with value \<^verbatim>\<open>DevFee\<close> and pkScript
  \<^verbatim>\<open>DevScriptPubKey\<close>, then, if SegWit is enabled, an output with value 0 and the
  witness commitment bytes as pkScript; lockTime is 0.
\<close>

theorem coinbaseTx_structure:
  "(let tx = coinbaseTx_built w coinbaseData miningCfg in
      Data (fst (buildCoinbaseTx w coinbaseData miningCfg legacy witness))
        = Data legacy @ serialize_Transaction tx False
    \<and> Data (snd (buildCoinbaseTx w coinbaseData miningCfg legacy witness))
        = Data witness @ serialize_Transaction tx True
    \<and> version tx = (if SegwitEnabled w then 2 else 1)
    \<and> length (txIn tx) = 1
    \<and> previousOutputHash (hd (txIn tx)) = 0
    \<and> previousOutputIndex (hd (txIn tx)) = 0xFFFFFFFF
    \<and> sequence (hd (txIn tx)) = 0xFFFFFFFF
    \<and> witnessStack (hd (txIn tx)) = (if SegwitEnabled w then [replicate 32 0] else [])
    \<and> txOut tx =
         [\<lparr>txValue = BlockReward w,
           pkScript = [0x76, 0xA9, 20] @ MiningAddress w @ [0x88, 0xAC]\<rparr>]
         @ (if DevFee w \<noteq> 0 then [\<lparr>txValue = DevFee w, pkScript = DevScriptPubKey w\<rparr>]
            else [])
         @ (if SegwitEnabled w then [\<lparr>txValue = 0, pkScript = WitnessCommitment w\<rparr>]
            else [])
    \<and> lockTime tx = 0)"
proof -
  have outs: "txOut (coinbaseTx_built w coinbaseData miningCfg) =
         [\<lparr>txValue = BlockReward w,
           pkScript = [0x76, 0xA9, 20] @ MiningAddress w @ [0x88, 0xAC]\<rparr>]
         @ (if DevFee w \<noteq> 0 then [\<lparr>txValue = DevFee w, pkScript = DevScriptPubKey w\<rparr>]
            else [])
         @ (if SegwitEnabled w then [\<lparr>txValue = 0, pkScript = WitnessCommitment w\<rparr>]
            else [])"
    by (simp add: coinbaseTx_built_def Let_def p2pkh_def OP_DUP_def OP_HASH160_def
        OP_EQUALVERIFY_def OP_CHECKSIG_def AddressTy_size_def)
  have ins: "version (coinbaseTx_built w coinbaseData miningCfg) = (if SegwitEnabled w then 2 else 1)"
    "lockTime (coinbaseTx_built w coinbaseData miningCfg) = 0"
    by (simp_all add: coinbaseTx_built_def coinbaseTx_initial_def Let_def)
  show ?thesis
    unfolding Let_def
    using outs ins
    by (simp add: txIn_coinbaseTx_built coinbaseTxIn_initial_def Data_buildCoinbaseTx)
qed

subsection \<open>Extranonce offsets\<close>

lemma getFirstScriptSigOffset_initial:
  "getFirstScriptSigOffset (coinbaseTx_initial w) sw = (if sw then 44 else 42)"
  by (simp add: getFirstScriptSigOffset_def coinbaseTx_initial_def coinbaseTxIn_initial_def
      serializeVarSize_def)

lemma getFirstScriptSigOffset_built:
  assumes "length (coinbase_scriptSig w cd cfg) < 253"
  shows "getFirstScriptSigOffset (coinbaseTx_built w cd cfg) sw = (if sw then 44 else 42)"
  using assms
  by (simp add: getFirstScriptSigOffset_def txIn_coinbaseTx_built serializeVarSize_1
      serializeVarSize_small)

lemma serialize_built_split:
  assumes "length (coinbase_scriptSig w cd cfg) < 253"
  shows "\<exists>pre post. serialize_Transaction (coinbaseTx_built w cd cfg) sw
            = pre @ coinbase_scriptSig w cd cfg @ post
          \<and> length pre = (if sw then 44 else 42)"
proof -
  let ?s = "coinbase_scriptSig w cd cfg"
  let ?pre = "serialize_u32 (version (coinbaseTx_built w cd cfg))
     @ (if sw then [0x00, 0x01] else []) @ [1]
     @ serialize_uint256 0 @ serialize_u32 0xFFFFFFFF @ [ucast (of_nat (length ?s) :: 64 word)]"
  let ?post = "serialize_u32 0xFFFFFFFF
     @ serializeVarSize (of_nat (length (txOut (coinbaseTx_built w cd cfg))))
     @ concat (map serialize_TxOut (txOut (coinbaseTx_built w cd cfg)))
     @ (if sw then concat (map (\<lambda>i. serialize_witnessStack (witnessStack i))
                           (txIn (coinbaseTx_built w cd cfg))) else [])
     @ serialize_u32 (lockTime (coinbaseTx_built w cd cfg))"
  have "serialize_Transaction (coinbaseTx_built w cd cfg) sw = ?pre @ ?s @ ?post"
    using assms
    by (simp add: serialize_Transaction_def txIn_coinbaseTx_built serialize_TxIn_def
        serialize_bytes_def serializeVarSize_1 serializeVarSize_small coinbaseTxIn_initial_def)
  moreover have "length ?pre = (if sw then 44 else 42)"
    by (simp add: serialize_u32_def serialize_uint256_def)
  ultimately show ?thesis by blast
qed

lemma unat_offset:
  assumes "m < 2 ^ 32" and "x = (of_nat m :: 32 word)"
  shows "unat x = m"
  using assms by (simp only: unat_of_nat) simp

lemma length_reserve: "length (reserve n) = n"
  by (simp add: reserve_def)

lemma region_in_split:
  assumes "d = pre @ (p @ r) @ post"
  shows "take (length p + length r) (drop (length pre) d) = p @ r"
    and "take (length r) (drop (length pre + length p) d) = r"
  using assms by simp_all

text \<open>
  While the scriptSig is shorter than 253 bytes its CompactSize length takes one byte,
  as the offsets assume: in streams that were empty, each \<^verbatim>\<open>ExtraNonceOffset\<close> is
  the scriptSig-local extranonce position plus the first-scriptSig offset of the built
  transaction, and the bytes at the offset are the reserved extranonce bytes at the end
  of the scriptSig.
\<close>

lemma extraNonceOffset_short_scriptSig:
  assumes empty: "Data legacy = []" "Data witness = []"
    and short: "length (coinbase_scriptSig w coinbaseData miningCfg) < 253"
  shows "(let legacy' = fst (buildCoinbaseTx w coinbaseData miningCfg legacy witness);
              witness' = snd (buildCoinbaseTx w coinbaseData miningCfg legacy witness);
              tx = coinbaseTx_built w coinbaseData miningCfg;
              s = coinbase_scriptSig w coinbaseData miningCfg;
              n = FixedExtraNonceSize miningCfg + MutableExtraNonceSize miningCfg
          in unat (ExtraNonceOffset legacy')
               = length (scriptsig_prefix w coinbaseData) + getFirstScriptSigOffset tx False
           \<and> unat (ExtraNonceOffset witness')
               = length (scriptsig_prefix w coinbaseData) + getFirstScriptSigOffset tx True
           \<and> scriptSig (hd (txIn tx)) = s
           \<and> take (length s) (drop (getFirstScriptSigOffset tx False) (Data legacy')) = s
           \<and> take (length s) (drop (getFirstScriptSigOffset tx True) (Data witness')) = s
           \<and> s = scriptsig_prefix w coinbaseData @ reserve n
           \<and> take n (drop (unat (ExtraNonceOffset legacy')) (Data legacy')) = reserve n
           \<and> take n (drop (unat (ExtraNonceOffset witness')) (Data witness')) = reserve n)"
proof -
  let ?s = "coinbase_scriptSig w coinbaseData miningCfg"
  let ?p = "scriptsig_prefix w coinbaseData"
  let ?n = "FixedExtraNonceSize miningCfg + MutableExtraNonceSize miningCfg"
  let ?r = "buildCoinbaseTx w coinbaseData miningCfg legacy witness"
  have s: "?s = ?p @ reserve ?n"
    by (simp add: coinbase_scriptSig_def)
  have ls: "length ?s = length ?p + ?n" using s by (simp add: length_reserve)
  have lp: "length ?p < 253" using short ls by simp
  obtain preL postL where L: "serialize_Transaction (coinbaseTx_built w coinbaseData miningCfg) False
      = preL @ ?s @ postL" "length preL = 42"
    using serialize_built_split [OF short, of False] by auto
  obtain preW postW where W: "serialize_Transaction (coinbaseTx_built w coinbaseData miningCfg) True
      = preW @ ?s @ postW" "length preW = 44"
    using serialize_built_split [OF short, of True] by auto
  have dL: "Data (fst ?r) = preL @ (?p @ reserve ?n) @ postL"
    using L(1) s empty by (simp add: Data_buildCoinbaseTx)
  have dW: "Data (snd ?r) = preW @ (?p @ reserve ?n) @ postW"
    using W(1) s empty by (simp add: Data_buildCoinbaseTx)
  have oL: "unat (ExtraNonceOffset (fst ?r)) = length ?p + 42"
  proof (rule unat_offset)
    show "length ?p + 42 < 2 ^ 32" using lp by simp
    show "ExtraNonceOffset (fst ?r) = of_nat (length ?p + 42)"
      by (simp add: buildCoinbaseTx_def Let_def getFirstScriptSigOffset_initial)
  qed
  have oW: "unat (ExtraNonceOffset (snd ?r)) = length ?p + 44"
  proof (rule unat_offset)
    show "length ?p + 44 < 2 ^ 32" using lp by simp
    show "ExtraNonceOffset (snd ?r) = of_nat (length ?p + 44)"
      by (simp add: buildCoinbaseTx_def Let_def getFirstScriptSigOffset_initial)
  qed
  have g: "getFirstScriptSigOffset (coinbaseTx_built w coinbaseData miningCfg) False = 42"
     "getFirstScriptSigOffset (coinbaseTx_built w coinbaseData miningCfg) True = 44"
    using getFirstScriptSigOffset_built [OF short] by simp_all
  have r1: "take (length ?s) (drop 42 (Data (fst ?r))) = ?s"
    using region_in_split(1) [OF dL] L(2) s ls by (simp add: length_reserve)
  have r2: "take (length ?s) (drop 44 (Data (snd ?r))) = ?s"
    using region_in_split(1) [OF dW] W(2) s ls by (simp add: length_reserve)
  have r3: "take ?n (drop (length ?p + 42) (Data (fst ?r))) = reserve ?n"
    using region_in_split(2) [OF dL] L(2) by (simp add: add.commute length_reserve)
  have r4: "take ?n (drop (length ?p + 44) (Data (snd ?r))) = reserve ?n"
    using region_in_split(2) [OF dW] W(2) by (simp add: add.commute length_reserve)
  have sc: "scriptSig (hd (txIn (coinbaseTx_built w coinbaseData miningCfg))) = ?s"
    by (simp add: txIn_coinbaseTx_built)
  show ?thesis
    unfolding Let_def using oL oW g r1 r2 r3 r4 s sc by simp
qed

text \<open>
  C2 fails in the code once the scriptSig is 253 bytes or longer. buildCoinbaseTx takes
  the offsets (lines 301 to 304) while the input's scriptSig is still empty, so
  \<^verbatim>\<open>getFirstScriptSigOffset\<close> counts a one-byte CompactSize before the scriptSig; the
  scriptSig is assigned afterwards (line 307) and a longer one is serialized with a
  three-byte length. At height 1 with a 251-byte coinbase message and a 4 + 4 byte
  extranonce, the scriptSig is 261 bytes, its first 253 bytes being height and message;
  it lies at offset 44 of \<^verbatim>\<open>legacy.Data\<close> and 46 of \<^verbatim>\<open>witness.Data\<close>, so the
  reserved extranonce bytes start at 297 and 299. The stored offsets are 295 and 297:
  the region they point to starts with the last two bytes of the message.
\<close>

theorem extraNonceOffset_long_scriptSig:
  "(let built = buildCoinbaseTx example_work_long_message None example_config
                  emptyCoinbaseTx emptyCoinbaseTx;
        tx = coinbaseTx_built example_work_long_message None example_config;
        s = coinbase_scriptSig example_work_long_message None example_config;
        p = scriptsig_prefix example_work_long_message None
    in length s = 261 \<and> length p = 253 \<and> take 253 s = p
     \<and> drop 2 p = CoinbaseMessage example_work_long_message
     \<and> scriptSig (hd (txIn tx)) = s
     \<and> getFirstScriptSigOffset tx False = 44 \<and> getFirstScriptSigOffset tx True = 46
     \<and> take 261 (drop 44 (Data (fst built))) = s
     \<and> take 261 (drop 46 (Data (snd built))) = s
     \<and> unat (ExtraNonceOffset (fst built)) = 295
     \<and> unat (ExtraNonceOffset (snd built)) = 297
     \<and> take 2 (drop 295 (Data (fst built))) = drop 249 (CoinbaseMessage example_work_long_message)
     \<and> take 2 (drop 297 (Data (snd built))) = drop 249 (CoinbaseMessage example_work_long_message)
     \<and> drop 249 (CoinbaseMessage example_work_long_message) = [0x41, 0x41])"
  by code_simp

section \<open>Properties of transactionFilter\<close>

subsection \<open>The first two loops, entry by entry\<close>

lemma wellFormedEntry_obj:
  assumes "wellFormedEntry tx"
  shows "\<exists>ms. tx = JObject ms \<and> passesFieldChecks ms
           \<and> (HasMember ms ''hash'' \<longrightarrow> IsString (Member ms ''hash''))"
  using assms by (cases tx) (auto simp: wellFormedEntry_def split: if_splits)

lemma loadTxTree_wellFormed:
  assumes "wellFormedEntry tx"
  shows "\<exists>ms. tx = JObject ms \<and>
     loadTxTree (tx # rest) i tree m r =
       loadTxTree rest (Suc i) (tree[i := entryOf ms]) (m(templateTxId tx \<mapsto> i))
         (r - templateFee tx)"
proof -
  from wellFormedEntry_obj [OF assms] obtain ms where ms: "tx = JObject ms"
    "passesFieldChecks ms" "HasMember ms ''hash'' \<longrightarrow> IsString (Member ms ''hash'')"
    by blast
  have "loadTxTree (tx # rest) i tree m r =
       loadTxTree rest (Suc i) (tree[i := entryOf ms]) (m(templateTxId tx \<mapsto> i))
         (r - templateFee tx)"
    using ms by (auto simp: passesFieldChecks_def templateTxId_def templateFee_def entryOf_def)
  with ms(1) show ?thesis by blast
qed

lemma loadTxTree_rejected:
  assumes "rejectedEntry tx"
  shows "loadTxTree (tx # rest) i tree m r = Inr (False, tree, m, r)"
  using assms by (cases tx) (auto simp: rejectedEntry_def passesFieldChecks_def)

lemma loadTxTree_True_head:
  assumes "loadTxTree (tx # rest) i tree m r = Inr (True, tree', m', r')"
  shows "wellFormedEntry tx"
  using assms
  by (cases tx) (auto simp: wellFormedEntry_def passesFieldChecks_def split: if_splits)


declare loadTxTree.simps(2) [simp del]

lemma loadTxTree_reward:
  "loadTxTree txs i tree m r = Inr (True, tree', m', r')
     \<Longrightarrow> r' = r - sum_list (map templateFee txs)"
proof (induction txs arbitrary: i tree m r)
  case Nil
  then show ?case by simp
next
  case (Cons tx txs)
  have wf: "wellFormedEntry tx" using Cons.prems by (rule loadTxTree_True_head)
  from loadTxTree_wellFormed [OF wf, of txs i tree m r]
  obtain ms where step: "loadTxTree (tx # txs) i tree m r =
      loadTxTree txs (Suc i) (tree[i := entryOf ms]) (m(templateTxId tx \<mapsto> i))
         (r - templateFee tx)"
    by blast
  have "loadTxTree txs (Suc i) (tree[i := entryOf ms]) (m(templateTxId tx \<mapsto> i))
         (r - templateFee tx) = Inr (True, tree', m', r')"
    using Cons.prems by (simp only: step)
  from Cons.IH [OF this] show ?case by (simp add: diff_diff_eq)
qed

lemma loadTxTree_all:
  "list_all wellFormedEntry txs \<Longrightarrow>
     \<exists>t m'. loadTxTree txs i tree m r = Inr (True, t, m', r - sum_list (map templateFee txs))"
proof (induction txs arbitrary: i tree m r)
  case Nil
  then show ?case by simp
next
  case (Cons tx txs)
  then have wf: "wellFormedEntry tx" and rest: "list_all wellFormedEntry txs" by simp_all
  from loadTxTree_wellFormed [OF wf, of txs i tree m r] obtain ms where
    step: "loadTxTree (tx # txs) i tree m r =
       loadTxTree txs (Suc i) (tree[i := entryOf ms]) (m(templateTxId tx \<mapsto> i))
         (r - templateFee tx)"
    by blast
  have eq: "r - templateFee tx - sum_list (map templateFee txs)
      = r - sum_list (map templateFee (tx # txs))"
    by (simp add: diff_diff_eq)
  from Cons.IH [OF rest, of "Suc i" "tree[i := entryOf ms]" "m(templateTxId tx \<mapsto> i)"
      "r - templateFee tx"]
  obtain t m' where "loadTxTree txs (Suc i) (tree[i := entryOf ms]) (m(templateTxId tx \<mapsto> i))
      (r - templateFee tx) = Inr (True, t, m', r - templateFee tx - sum_list (map templateFee txs))"
    by blast
  then have "loadTxTree (tx # txs) i tree m r
      = Inr (True, t, m', r - sum_list (map templateFee (tx # txs)))"
    by (simp only: step eq)
  then show ?case by blast
qed

lemma loadTxTree_fails_at:
  "k < length txs \<Longrightarrow> list_all wellFormedEntry (take k txs) \<Longrightarrow> rejectedEntry (txs ! k) \<Longrightarrow>
     \<exists>t m'. loadTxTree txs i tree m r
        = Inr (False, t, m', r - sum_list (map templateFee (take k txs)))"
proof (induction k arbitrary: txs i tree m r)
  case 0
  then obtain tx rest where txs: "txs = tx # rest" by (cases txs) auto
  with 0 show ?case by (simp add: loadTxTree_rejected)
next
  case (Suc k)
  then obtain tx rest where txs: "txs = tx # rest" by (cases txs) auto
  with Suc.prems have wf: "wellFormedEntry tx" and k: "k < length rest"
    and pre: "list_all wellFormedEntry (take k rest)" and rej: "rejectedEntry (rest ! k)"
    by simp_all
  from loadTxTree_wellFormed [OF wf, of rest i tree m r] obtain ms where
    step: "loadTxTree (tx # rest) i tree m r =
       loadTxTree rest (Suc i) (tree[i := entryOf ms]) (m(templateTxId tx \<mapsto> i))
         (r - templateFee tx)"
    by blast
  have eq: "r - templateFee tx - sum_list (map templateFee (take k rest))
      = r - sum_list (map templateFee (take (Suc k) (tx # rest)))"
    by (simp add: diff_diff_eq)
  from Suc.IH [OF k pre rej, of "Suc i" "tree[i := entryOf ms]" "m(templateTxId tx \<mapsto> i)"
      "r - templateFee tx"]
  obtain t m' where "loadTxTree rest (Suc i) (tree[i := entryOf ms]) (m(templateTxId tx \<mapsto> i))
      (r - templateFee tx)
        = Inr (False, t, m', r - templateFee tx - sum_list (map templateFee (take k rest)))"
    by blast
  then have "loadTxTree (tx # rest) i tree m r
      = Inr (False, t, m', r - sum_list (map templateFee (take (Suc k) (tx # rest))))"
    by (simp only: step eq)
  then show ?case unfolding txs by blast
qed

lemma resolveDependencies_decodable:
  assumes "wellFormedEntry tx" "decodableEntry tx"
  shows "\<exists>t. resolveDependencies (tx # rest) i tree m = resolveDependencies rest (Suc i) t m"
proof -
  from wellFormedEntry_obj [OF assms(1)] obtain ms where ms: "tx = JObject ms"
    "passesFieldChecks ms"
    by blast
  with assms(2) obtain t where "decodeTx (GetString (Member ms ''data'')) = Some t"
    by (auto simp: decodableEntry_def split: option.splits)
  with ms show ?thesis
    by (auto simp: passesFieldChecks_def)
qed

lemma resolveDependencies_undecodable:
  assumes "wellFormedEntry tx" "\<not> decodableEntry tx"
  shows "resolveDependencies (tx # rest) i tree m = Inr (False, tree)"
proof -
  from wellFormedEntry_obj [OF assms(1)] obtain ms where ms: "tx = JObject ms"
    "passesFieldChecks ms"
    by blast
  with assms(2) have "decodeTx (GetString (Member ms ''data'')) = None"
    by (auto simp: decodableEntry_def split: option.splits)
  with ms show ?thesis
    by (auto simp: passesFieldChecks_def)
qed

declare resolveDependencies.simps(2) [simp del]

lemma resolveDependencies_fails_at:
  "k < length txs \<Longrightarrow> list_all wellFormedEntry txs \<Longrightarrow> list_all decodableEntry (take k txs)
     \<Longrightarrow> \<not> decodableEntry (txs ! k)
     \<Longrightarrow> \<exists>t. resolveDependencies txs i tree m = Inr (False, t)"
proof (induction k arbitrary: txs i tree)
  case 0
  then obtain tx rest where txs: "txs = tx # rest" by (cases txs) auto
  with 0 show ?case by (simp add: resolveDependencies_undecodable)
next
  case (Suc k)
  then obtain tx rest where txs: "txs = tx # rest" by (cases txs) auto
  with Suc.prems have wf: "wellFormedEntry tx" and dec: "decodableEntry tx"
    and k: "k < length rest" and wfr: "list_all wellFormedEntry rest"
    and pre: "list_all decodableEntry (take k rest)" and bad: "\<not> decodableEntry (rest ! k)"
    by simp_all
  from resolveDependencies_decodable [OF wf dec, of rest i tree m] obtain t where
    step: "resolveDependencies (tx # rest) i tree m = resolveDependencies rest (Suc i) t m"
    by blast
  from Suc.IH [OF k wfr pre bad, of "Suc i" t] obtain t' where
    "resolveDependencies rest (Suc i) t m = Inr (False, t')"
    by blast
  then have "resolveDependencies (tx # rest) i tree m = Inr (False, t')"
    by (simp only: step)
  then show ?case unfolding txs by blast
qed

subsection \<open>The block reward\<close>

text \<open>
  What the third loop is handed: when the first two loops run to their end, the tree
  they built and \<^verbatim>\<open>*blockReward\<close> less the fee of every template entry go to
  \<^verbatim>\<open>addTransaction\<close>, and transactionFilter returns what the third loop leaves.
\<close>

lemma transactionFilter_fee_loop:
  assumes "transactionFilter add transactions txNumLimit result blockReward sortByHash
             = Inr (True, result', blockReward')"
  shows "\<exists>tree tree' selected.
      dependencyTree transactions blockReward = Inr (True, tree)
    \<and> addTransactions add [0..<length transactions] tree txNumLimit result
          (blockReward - sum_list (map templateFee transactions))
        = Some (tree', selected, blockReward')"
proof -
  from assms obtain t1 m r1 where
    l: "loadTxTree transactions 0 (replicate (length transactions) emptyTxTree) Map.empty blockReward
          = Inr (True, t1, m, r1)"
    by (auto simp: transactionFilter_def Let_def split: sum.splits if_splits option.splits)
  from assms l obtain t2 where
    d: "resolveDependencies transactions 0 t1 m = Inr (True, t2)"
    by (auto simp: transactionFilter_def Let_def split: sum.splits if_splits option.splits)
  from assms l d obtain t3 res3 where
    a: "addTransactions add [0..<length transactions] t2 txNumLimit result r1
          = Some (t3, res3, blockReward')"
    by (auto simp: transactionFilter_def Let_def split: sum.splits if_splits option.splits)
  have r1: "r1 = blockReward - sum_list (map templateFee transactions)"
    using loadTxTree_reward [OF l] .
  have "dependencyTree transactions blockReward = Inr (True, t2)"
    using l d by (simp add: dependencyTree_def)
  with a r1 show ?thesis by blast
qed

text \<open>
  C9. transactionFilter is not atomic in \<^verbatim>\<open>*blockReward\<close>. Let the first invalid
  entry be at index \<open>k\<close>: either entry \<open>k\<close> is an object that fails a field check while
  the entries before it pass the first loop, or all entries pass the first loop and
  entry \<open>k\<close> is the first that does not decode. Then transactionFilter returns false,
  \<^verbatim>\<open>result\<close> is untouched, and \<^verbatim>\<open>*blockReward\<close> stays decremented by the fees of
  the entries the first loop had processed before the failure: the entries before \<open>k\<close>
  for a field failure, all entries for a decode failure (the decode loop starts after
  the fee loop has ended).
\<close>

theorem transactionFilter_partial_decrement:
  assumes k: "k < length transactions"
    and before: "list_all wellFormedEntry (take k transactions)"
    and invalid: "rejectedEntry (transactions ! k)
        \<or> (list_all wellFormedEntry transactions \<and> list_all decodableEntry (take k transactions)
            \<and> \<not> decodableEntry (transactions ! k))"
  shows "transactionFilter add transactions txNumLimit result blockReward sortByHash
     = Inr (False, result,
            blockReward - sum_list (map templateFee
              (if rejectedEntry (transactions ! k) then take k transactions else transactions)))"
proof (cases "rejectedEntry (transactions ! k)")
  case True
  from loadTxTree_fails_at [OF k before True] obtain t m' where
    "loadTxTree transactions 0 (replicate (length transactions) emptyTxTree) Map.empty blockReward
       = Inr (False, t, m', blockReward - sum_list (map templateFee (take k transactions)))"
    by blast
  with True show ?thesis by (simp add: transactionFilter_def Let_def)
next
  case False
  with invalid have wf: "list_all wellFormedEntry transactions"
    and dec: "list_all decodableEntry (take k transactions)"
    and bad: "\<not> decodableEntry (transactions ! k)"
    by simp_all
  from loadTxTree_all [OF wf] obtain t m' where
    l: "loadTxTree transactions 0 (replicate (length transactions) emptyTxTree) Map.empty blockReward
       = Inr (True, t, m', blockReward - sum_list (map templateFee transactions))"
    by blast
  from resolveDependencies_fails_at [OF k wf dec bad] obtain t' where
    "resolveDependencies transactions 0 t m' = Inr (False, t')"
    by blast
  with l False show ?thesis by (simp add: transactionFilter_def Let_def)
qed

text \<open>
  Both kinds of failure at index 1 of a three-entry template with fees 10, 20, 30 and
  reward 100: without the \<^verbatim>\<open>fee\<close> field the reward is left at 90, with a truncated
  \<^verbatim>\<open>data\<close> at 40.
\<close>

theorem transactionFilter_partial_decrement_witness:
  "transactionFilter (addTransaction example_externals) example_transactions_no_fee 2 [] 100
       False = Inr (False, [], 90)
   \<and> transactionFilter (addTransaction example_externals) example_transactions_truncated 2 []
       100 False = Inr (False, [], 40)"
proof -
  have k: "(1::nat) < length example_transactions_no_fee"
    "(1::nat) < length example_transactions_truncated"
    by code_simp+
  have a1: "list_all wellFormedEntry (take 1 example_transactions_no_fee)"
    and a2: "rejectedEntry (example_transactions_no_fee ! 1)"
    by code_simp+
  have b1: "list_all wellFormedEntry (take 1 example_transactions_truncated)"
    and b2: "list_all wellFormedEntry example_transactions_truncated
        \<and> list_all decodableEntry (take 1 example_transactions_truncated)
        \<and> \<not> decodableEntry (example_transactions_truncated ! 1)"
    and b3: "\<not> rejectedEntry (example_transactions_truncated ! 1)"
    by code_simp+
  have f1: "sum_list (map templateFee (take 1 example_transactions_no_fee)) = 10"
    and f2: "sum_list (map templateFee example_transactions_truncated) = 60"
    by code_simp+
  from transactionFilter_partial_decrement [OF k(1) a1 disjI1 [OF a2],
      of "addTransaction example_externals" 2 "[]" 100 False]
  have r1: "transactionFilter (addTransaction example_externals) example_transactions_no_fee 2 []
      100 False = Inr (False, [], 90)"
    using a2 f1 by simp
  from transactionFilter_partial_decrement [OF k(2) b1 disjI2 [OF b2],
      of "addTransaction example_externals" 2 "[]" 100 False]
  have r2: "transactionFilter (addTransaction example_externals) example_transactions_truncated 2
      [] 100 False = Inr (False, [], 40)"
    using b3 f2 by simp
  from r1 r2 show ?thesis by blast
qed

subsection \<open>The dependency table\<close>

lemma filter_upt_Cons:
  "filter (\<lambda>j. Q ((x # xs) ! j)) [0..<Suc (length xs)]
     = (if Q x then [0] else []) @ map Suc (filter (\<lambda>j. Q (xs ! j)) [0..<length xs])"
proof -
  have "[0..<Suc (length xs)] = 0 # map Suc [0..<length xs]"
    by (simp only: upt_conv_Cons [of 0 "Suc (length xs)"] map_Suc_upt)
  then show ?thesis
    by (simp add: filter_map comp_def)
qed

lemma loadTxTree_txidMap:
  "loadTxTree txs i tree m r = Inr (True, tree', m', r') \<Longrightarrow>
     m' h = (case filter (\<lambda>j. templateTxId (txs ! j) = h) [0..<length txs] of
               [] \<Rightarrow> m h
             | j # js \<Rightarrow> Some (i + last (j # js)))"
proof (induction txs arbitrary: i tree m r)
  case Nil
  then show ?case by simp
next
  case (Cons tx txs)
  have wf: "wellFormedEntry tx" using Cons.prems by (rule loadTxTree_True_head)
  from loadTxTree_wellFormed [OF wf, of txs i tree m r]
  obtain ms where step: "loadTxTree (tx # txs) i tree m r =
      loadTxTree txs (Suc i) (tree[i := entryOf ms]) (m(templateTxId tx \<mapsto> i))
         (r - templateFee tx)"
    by blast
  have rest: "loadTxTree txs (Suc i) (tree[i := entryOf ms]) (m(templateTxId tx \<mapsto> i))
         (r - templateFee tx) = Inr (True, tree', m', r')"
    using Cons.prems by (simp only: step)
  let ?js = "filter (\<lambda>j. templateTxId (txs ! j) = h) [0..<length txs]"
  have ih: "m' h = (case ?js of [] \<Rightarrow> (m(templateTxId tx \<mapsto> i)) h
                    | j # js \<Rightarrow> Some (Suc i + last (j # js)))"
    by (rule Cons.IH [OF rest])
  have split: "filter (\<lambda>j. templateTxId ((tx # txs) ! j) = h) [0..<length (tx # txs)]
     = (if templateTxId tx = h then [0] else []) @ map Suc ?js"
    using filter_upt_Cons [of "\<lambda>e. templateTxId e = h" tx txs] by simp
  show ?case
  proof (cases ?js)
    case Nil
    with ih split show ?thesis by simp
  next
    case (Cons j js)
    then have ne: "?js \<noteq> []" by simp
    have "last (map Suc ?js) = Suc (last ?js)" using ne by (simp add: last_map)
    with ih split Cons show ?thesis
      by (simp only: split) (auto simp: last_map)
  qed
qed

lemma loadTxTree_tree:
  "loadTxTree txs i tree m r = Inr (True, tree', m', r') \<Longrightarrow>
     list_all (\<lambda>e. DependsOn e = None) tree \<Longrightarrow>
     length tree' = length tree \<and> list_all (\<lambda>e. DependsOn e = None) tree'"
proof (induction txs arbitrary: i tree m r)
  case Nil
  then show ?case by simp
next
  case (Cons tx txs)
  have wf: "wellFormedEntry tx" using Cons.prems(1) by (rule loadTxTree_True_head)
  from loadTxTree_wellFormed [OF wf, of txs i tree m r]
  obtain ms where step: "loadTxTree (tx # txs) i tree m r =
      loadTxTree txs (Suc i) (tree[i := entryOf ms]) (m(templateTxId tx \<mapsto> i))
         (r - templateFee tx)"
    by blast
  have rest: "loadTxTree txs (Suc i) (tree[i := entryOf ms]) (m(templateTxId tx \<mapsto> i))
         (r - templateFee tx) = Inr (True, tree', m', r')"
    using Cons.prems(1) by (simp only: step)
  have "set (tree[i := entryOf ms]) \<subseteq> insert (entryOf ms) (set tree)"
    by (rule set_update_subset_insert)
  moreover have "DependsOn (entryOf ms) = None" by (simp add: entryOf_def)
  ultimately have inv: "list_all (\<lambda>e. DependsOn e = None) (tree[i := entryOf ms])"
    using Cons.prems(2) unfolding list_all_iff by blast
  from Cons.IH [OF rest inv] show ?case by simp
qed

lemma findDependencies_last:
  "findDependencies ins m d =
     (case filter (\<lambda>txin. case m (previousOutputHash txin) of Some j \<Rightarrow> True | None \<Rightarrow> False) ins of
        [] \<Rightarrow> d
      | txin # rest \<Rightarrow> m (previousOutputHash (last (txin # rest))))"
proof (induction ins arbitrary: d)
  case Nil
  then show ?case by simp
next
  case (Cons a ins)
  show ?case
  proof (cases "m (previousOutputHash a)")
    case None
    with Cons.IH [of d] show ?thesis by simp
  next
    case (Some j)
    with Cons.IH [of "Some j"] show ?thesis
      by (cases "filter (\<lambda>txin. case m (previousOutputHash txin) of Some j \<Rightarrow> True | None \<Rightarrow> False) ins")
        simp_all
  qed
qed

lemma resolveDependencies_True_head:
  assumes "resolveDependencies (tx # rest) i tree m = Inr (True, tree')"
  shows "decodableEntry tx \<and>
     resolveDependencies rest (Suc i)
       (tree[i := (tree ! i)\<lparr>DependsOn :=
           findDependencies (templateInputs tx) m (DependsOn (tree ! i))\<rparr>]) m
     = Inr (True, tree')"
  using assms
  by (cases tx)
    (auto simp: resolveDependencies.simps(2) decodableEntry_def templateInputs_def
      split: if_splits option.splits)

lemma resolveDependencies_tree:
  "resolveDependencies txs i tree m = Inr (True, tree') \<Longrightarrow> i + length txs \<le> length tree \<Longrightarrow>
     length tree' = length tree
     \<and> (\<forall>j<i. tree' ! j = tree ! j)
     \<and> (\<forall>k<length txs. decodableEntry (txs ! k) \<and> DependsOn (tree' ! (i + k))
            = findDependencies (templateInputs (txs ! k)) m (DependsOn (tree ! (i + k))))"
proof (induction txs arbitrary: i tree)
  case Nil
  then show ?case by simp
next
  case (Cons tx txs)
  let ?t1 = "tree[i := (tree ! i)\<lparr>DependsOn :=
           findDependencies (templateInputs tx) m (DependsOn (tree ! i))\<rparr>]"
  from resolveDependencies_True_head [OF Cons.prems(1)]
  have dec: "decodableEntry tx"
    and rest: "resolveDependencies txs (Suc i) ?t1 m = Inr (True, tree')"
    by simp_all
  have bound: "Suc i + length txs \<le> length ?t1" using Cons.prems(2) by simp
  from Cons.IH [OF rest bound]
  have len: "length tree' = length ?t1"
    and low: "\<forall>j<Suc i. tree' ! j = ?t1 ! j"
    and high: "\<forall>k<length txs. decodableEntry (txs ! k) \<and> DependsOn (tree' ! (Suc i + k))
            = findDependencies (templateInputs (txs ! k)) m (DependsOn (?t1 ! (Suc i + k)))"
    by simp_all
  have i: "i < length tree" using Cons.prems(2) by simp
  have c1: "length tree' = length tree" using len by simp
  have c2: "\<forall>j<i. tree' ! j = tree ! j" using low by simp
  have c3: "\<forall>k<length (tx # txs). decodableEntry ((tx # txs) ! k) \<and> DependsOn (tree' ! (i + k))
            = findDependencies (templateInputs ((tx # txs) ! k)) m (DependsOn (tree ! (i + k)))"
  proof (intro allI impI)
    fix k assume k: "k < length (tx # txs)"
    show "decodableEntry ((tx # txs) ! k) \<and> DependsOn (tree' ! (i + k))
            = findDependencies (templateInputs ((tx # txs) ! k)) m (DependsOn (tree ! (i + k)))"
    proof (cases k)
      case 0
      have "tree' ! i = ?t1 ! i" using low by simp
      with 0 i dec show ?thesis by simp
    next
      case (Suc k')
      with k have k': "k' < length txs" by simp
      from high k' have "decodableEntry (txs ! k') \<and> DependsOn (tree' ! (Suc i + k'))
            = findDependencies (templateInputs (txs ! k')) m (DependsOn (?t1 ! (Suc i + k')))"
        by blast
      with Suc show ?thesis by simp
    qed
  qed
  from c1 c2 c3 show ?case by blast
qed

lemma transactionFilter_dependencyTree:
  assumes "transactionFilter add transactions txNumLimit result blockReward sortByHash
             = Inr (True, result', blockReward')"
  shows "\<exists>tree. dependencyTree transactions blockReward = Inr (True, tree)"
  using assms
  by (auto simp: transactionFilter_def dependencyTree_def Let_def
      split: sum.splits if_splits option.splits)

text \<open>
  C4, as the spec states it, fails: the loop over the inputs has no \<^verbatim>\<open>break\<close>, so a
  later matching input overwrites \<^verbatim>\<open>DependsOn\<close>. In the example template the third
  transaction spends txid 1 (entry 0) with its first input and txid 2 (entry 1) with
  its second; \<^verbatim>\<open>DependsOn[2]\<close> is 1, the first matching input's entry is 0.
\<close>

theorem dependsOn_first_input_counterexample:
  "(case dependencyTree example_transactions 100 of
      Inr (ok, tree) \<Rightarrow>
        ok \<and> DependsOn (tree ! 2) = Some 1
        \<and> map previousOutputHash (templateInputs (example_transactions ! 2)) = [1, 2]
        \<and> map (txidIndex example_transactions) [1, 2] = [Some 0, Some 1]
        \<and> firstDependency example_transactions (templateInputs (example_transactions ! 2))
            = Some 0
    | Inl f \<Rightarrow> False)"
  by code_simp

text \<open>
  C4 (amended). For every template that passes the first two loops of
  transactionFilter and every template transaction \<open>i\<close>: the transaction decodes; if
  at least one of its inputs has a previousOutputHash that is a txid of the same
  template, \<^verbatim>\<open>DependsOn[i]\<close> is the index of the template entry matching the LAST
  such input (the last entry carrying that txid); and \<^verbatim>\<open>DependsOn[i]\<close> is none
  exactly when no input matches.
\<close>

theorem dependsOn_last_matching_input:
  assumes run: "dependencyTree transactions blockReward = Inr (True, tree)"
    and i: "i < length transactions"
  shows "decodableEntry (transactions ! i)
     \<and> DependsOn (tree ! i) = lastDependency transactions (templateInputs (transactions ! i))
     \<and> (DependsOn (tree ! i) = None)
         = (matchingInputs transactions (templateInputs (transactions ! i)) = [])"
proof -
  let ?n = "length transactions"
  from run obtain t1 m r1 where
    l: "loadTxTree transactions 0 (replicate ?n emptyTxTree) Map.empty blockReward
          = Inr (True, t1, m, r1)"
    and d: "resolveDependencies transactions 0 t1 m = Inr (True, tree)"
    by (auto simp: dependencyTree_def split: sum.splits if_splits)
  have m: "m = txidIndex transactions"
  proof
    fix h
    show "m h = txidIndex transactions h"
      using loadTxTree_txidMap [OF l, of h] by (simp add: txidIndex_def split: list.splits)
  qed
  have init: "list_all (\<lambda>e. DependsOn e = None) (replicate ?n emptyTxTree)"
    by (simp add: list_all_iff emptyTxTree_def)
  from loadTxTree_tree [OF l init]
  have len1: "length t1 = ?n" and none1: "list_all (\<lambda>e. DependsOn e = None) t1"
    by simp_all
  have n1: "DependsOn (t1 ! i) = None"
    using none1 i len1 by (simp add: list_all_length)
  from resolveDependencies_tree [OF d] len1 i
  have dec: "decodableEntry (transactions ! i)"
    and dep: "DependsOn (tree ! i)
        = findDependencies (templateInputs (transactions ! i)) m (DependsOn (t1 ! i))"
    by auto
  have last: "DependsOn (tree ! i) = lastDependency transactions (templateInputs (transactions ! i))"
    unfolding dep n1 m findDependencies_last lastDependency_def matchingInputs_def ..
  have none: "(lastDependency transactions (templateInputs (transactions ! i)) = None)
      = (matchingInputs transactions (templateInputs (transactions ! i)) = [])"
  proof (cases "matchingInputs transactions (templateInputs (transactions ! i))")
    case Nil
    then show ?thesis by (simp add: lastDependency_def)
  next
    case (Cons a as)
    then have "last (a # as) \<in> set (matchingInputs transactions (templateInputs (transactions ! i)))"
      by (metis last_in_set list.distinct(1))
    then have "txidIndex transactions (previousOutputHash (last (a # as))) \<noteq> None"
      by (auto simp: matchingInputs_def split: option.splits)
    with Cons show ?thesis by (simp add: lastDependency_def)
  qed
  from dec last none show ?thesis by simp
qed

theorem dependsOn_last_matching_input_witness:
  "(case dependencyTree example_transactions 100 of
      Inr (ok, tree) \<Rightarrow>
        ok \<and> DependsOn (tree ! 2) = Some 1
        \<and> DependsOn (tree ! 2)
            = lastDependency example_transactions (templateInputs (example_transactions ! 2))
    | Inl f \<Rightarrow> False)"
proof -
  have "(case dependencyTree example_transactions 100 of
      Inr (ok, tree) \<Rightarrow> ok \<and> DependsOn (tree ! 2) = Some 1 | Inl f \<Rightarrow> False)"
    by code_simp
  then obtain tree where run: "dependencyTree example_transactions 100 = Inr (True, tree)"
    and dep: "DependsOn (tree ! 2) = Some 1"
    by (auto split: sum.splits)
  have i: "2 < length example_transactions"
    by code_simp
  from dependsOn_last_matching_input [OF run i] run dep show ?thesis
    by simp
qed

section \<open>Properties of loadFromTemplate\<close>

lemma txFilterOf_beginLoad [simp]: "txFilterOf (beginLoad w bt sw) txs = txFilterOf w txs"
  by (simp add: txFilterOf_def beginLoad_def)

lemma loadFromTemplate_valid:
  assumes result: "FindMember doc ''result'' = Some (JObject bt)"
    and present: "requiredFieldsPresent bt"
    and typed: "requiredFieldsTyped bt"
  shows "loadFromTemplate ext w (JObject doc) ticker error =
     (case isSegwitEnabled ext (GetArray (Member bt ''transactions'')) of
        Inl f \<Rightarrow> Inl f
      | Inr sw \<Rightarrow>
          (case processTransactions ext (beginLoad w bt sw)
                  (GetArray (Member bt ''transactions'')) ticker of
             Inl f \<Rightarrow> Inl f
           | Inr (processed, reward) \<Rightarrow>
               Inr (finishLoad ext ((beginLoad w bt sw)\<lparr>BlockReward := reward\<rparr>) bt
                      (txFilterOf w (GetArray (Member bt ''transactions''))) processed error)))"
  unfolding loadFromTemplate_def Let_def
  by (simp only: result present typed json.case option.case not_True_eq_False if_False
      txFilterOf_beginLoad)

lemma processTransactions_checker:
  assumes "\<not> txFilterOf w txs" and "transactionChecker ext txs [] = Inr (ok, processed)"
  shows "processTransactions ext w txs ticker = Inr (processed, BlockReward w)"
  using assms by (simp add: processTransactions_def Let_def)

lemma finishLoad_plain:
  assumes "\<not> SegwitEnabled w"
  shows "\<exists>w'. finishLoad ext w bt txFilter processed error = (True, w', error)"
  using assms by (simp add: finishLoad_def Let_def)

text \<open>
  On the checker path the \<^verbatim>\<open>bool\<close> of transactionChecker decides nothing: with the
  required fields present and well-typed and SegWit not enabled, loadFromTemplate
  returns true with \<^verbatim>\<open>error\<close> untouched whatever the checker returned.
\<close>

lemma load_on_checker_path:
  assumes result: "FindMember doc ''result'' = Some (JObject blockTemplate)"
    and present: "requiredFieldsPresent blockTemplate"
    and typed: "requiredFieldsTyped blockTemplate"
    and checker: "\<not> txFilterOf w (GetArray (Member blockTemplate ''transactions''))"
    and plain: "isSegwitEnabled ext (GetArray (Member blockTemplate ''transactions'')) = Inr False"
    and checked: "transactionChecker ext (GetArray (Member blockTemplate ''transactions'')) []
        = Inr (ok, processed)"
  shows "\<exists>w'. loadFromTemplate ext w (JObject doc) ticker error = Inr (True, w', error)"
proof -
  let ?txs = "GetArray (Member blockTemplate ''transactions'')"
  let ?w1 = "beginLoad w blockTemplate False"
  have pc: "processTransactions ext ?w1 ?txs ticker = Inr (processed, BlockReward ?w1)"
    using checked by (rule processTransactions_checker [rotated]) (simp add: checker)
  have load: "loadFromTemplate ext w (JObject doc) ticker error
      = Inr (finishLoad ext (?w1\<lparr>BlockReward := BlockReward ?w1\<rparr>) blockTemplate
          (txFilterOf w ?txs) processed error)"
    by (simp only: loadFromTemplate_valid [OF result present typed] plain pc sum.case prod.case)
  have "\<not> SegwitEnabled (?w1\<lparr>BlockReward := BlockReward ?w1\<rparr>)"
    by (simp add: beginLoad_def)
  from finishLoad_plain [OF this] obtain w' where
    "finishLoad ext (?w1\<lparr>BlockReward := BlockReward ?w1\<rparr>) blockTemplate
          (txFilterOf w ?txs) processed error = (True, w', error)"
    by blast
  with load show ?thesis by simp
qed

text \<open>
  C5 fails in the code. With no transaction cap the checker path is taken. The second
  entry of the template does not decode (its \<^verbatim>\<open>data\<close> is cut after the version
  bytes). Line 227 calls transactionChecker as a statement: whatever \<^verbatim>\<open>bool\<close> and
  whatever transactions the checker returns for this template, loadFromTemplate returns
  true and leaves \<^verbatim>\<open>error\<close> empty.
\<close>

theorem load_with_undecodable_transaction:
  "\<not> txFilterOf example_work example_transactions_truncated
   \<and> \<not> decodableEntry (example_transactions_truncated ! 1)
   \<and> (\<forall>ok processed. \<exists>w'.
        loadFromTemplate
          (example_externals\<lparr>transactionChecker := (\<lambda>transactions result. Inr (ok, processed))\<rparr>)
          example_work (example_document example_transactions_truncated) ''BTC'' []
        = Inr (True, w', []))
   \<and> (\<exists>w'. loadFromTemplate example_externals example_work
              (example_document example_transactions_truncated) ''BTC'' []
            = Inr (True, w', []))"
proof -
  let ?bt = "example_blockTemplate example_transactions_truncated"
  have result: "FindMember [(''result'', JObject ?bt)] ''result'' = Some (JObject ?bt)"
    by (simp add: FindMember_def)
  have present: "requiredFieldsPresent ?bt" and typed: "requiredFieldsTyped ?bt"
    by code_simp+
  have txs: "GetArray (Member ?bt ''transactions'') = example_transactions_truncated"
    by (simp add: example_blockTemplate_def Member_def FindMember_def GetArray_def)
  have checker: "\<not> txFilterOf example_work example_transactions_truncated"
    and undecodable: "\<not> decodableEntry (example_transactions_truncated ! 1)"
    by code_simp+
  have checker': "\<not> txFilterOf example_work (GetArray (Member ?bt ''transactions''))"
    using checker by (simp add: txs)
  have plain: "isSegwitEnabled_spec example_transactions_truncated = Inr False"
    by code_simp
  have any: "\<exists>w'. loadFromTemplate
          (example_externals\<lparr>transactionChecker := (\<lambda>transactions result. Inr (ok, processed))\<rparr>)
          example_work (example_document example_transactions_truncated) ''BTC'' []
        = Inr (True, w', [])" for ok processed
    unfolding example_document_def
    by (rule load_on_checker_path [OF result present typed checker', of _ ok processed])
      (simp_all add: txs plain example_externals_def)
  obtain ok processed where
    "transactionChecker_spec example_transactions_truncated [] = Inr (ok, processed)"
    by (cases "transactionChecker_spec example_transactions_truncated []" rule: sum.exhaust)
      (code_simp, auto)
  then have own: "\<exists>w'. loadFromTemplate example_externals example_work
              (example_document example_transactions_truncated) ''BTC'' []
            = Inr (True, w', [])"
    unfolding example_document_def
    by (intro load_on_checker_path [OF result present typed checker', of _ ok processed])
      (simp_all add: txs plain example_externals_def)
  from checker undecodable any own show ?thesis by blast
qed

subsection \<open>The header of a loaded work\<close>

lemma finishLoad_True:
  assumes "finishLoad ext w bt txFilter processed error = (True, w', e)"
  shows "\<exists>selected. Header w' = headerOfTemplate bt
     \<and> TxHexData w' = concat (map HexData selected)
     \<and> TxNum w' = of_nat (length selected)
     \<and> (\<not> SegwitEnabled w \<longrightarrow> selected = processed)
     \<and> Data (CBTxWitness w')
         = Data (CBTxWitness w) @ serialize_Transaction (coinbaseTx_built w' None (MiningCfg w')) True
     \<and> Data (CBTxLegacy w')
         = Data (CBTxLegacy w) @ serialize_Transaction (coinbaseTx_built w' None (MiningCfg w')) False"
  using assms
  by (auto simp: finishLoad_def Let_def collectTransactions_def buildCoinbaseTx_def
      coinbaseTx_built_def coinbaseTx_initial_def coinbaseTxIn_initial_def scriptsig_prefix_def
      coinbase_scriptSig_def split: sum.splits if_splits)

lemma loadFromTemplate_True:
  assumes run: "loadFromTemplate ext w document ticker error = Inr (True, w', e)"
  shows "\<exists>doc bt sw processed reward.
     document = JObject doc \<and> FindMember doc ''result'' = Some (JObject bt)
     \<and> requiredFieldsPresent bt \<and> requiredFieldsTyped bt
     \<and> isSegwitEnabled ext (GetArray (Member bt ''transactions'')) = Inr sw
     \<and> processTransactions ext (beginLoad w bt sw) (GetArray (Member bt ''transactions'')) ticker
         = Inr (processed, reward)
     \<and> finishLoad ext ((beginLoad w bt sw)\<lparr>BlockReward := reward\<rparr>) bt
          (txFilterOf w (GetArray (Member bt ''transactions''))) processed error = (True, w', e)"
proof -
  from run obtain doc where doc: "document = JObject doc"
    by (cases document) (simp_all add: loadFromTemplate_def)
  from run doc obtain v where v: "FindMember doc ''result'' = Some v"
    by (cases "FindMember doc ''result''") (simp_all add: loadFromTemplate_def)
  from run doc v obtain bt where bt: "v = JObject bt"
    by (cases v) (simp_all add: loadFromTemplate_def)
  have result: "FindMember doc ''result'' = Some (JObject bt)"
    using v bt by simp
  have present: "requiredFieldsPresent bt"
    using run doc result by (cases "requiredFieldsPresent bt") (simp_all add: loadFromTemplate_def)
  have typed: "requiredFieldsTyped bt"
    using run doc result present
    by (cases "requiredFieldsTyped bt") (simp_all add: loadFromTemplate_def)
  from run doc have unfolded:
    "(case isSegwitEnabled ext (GetArray (Member bt ''transactions'')) of
        Inl f \<Rightarrow> Inl f
      | Inr sw \<Rightarrow>
          (case processTransactions ext (beginLoad w bt sw)
                  (GetArray (Member bt ''transactions'')) ticker of
             Inl f \<Rightarrow> Inl f
           | Inr (processed, reward) \<Rightarrow>
               Inr (finishLoad ext ((beginLoad w bt sw)\<lparr>BlockReward := reward\<rparr>) bt
                      (txFilterOf w (GetArray (Member bt ''transactions''))) processed error)))
      = Inr (True, w', e)"
    by (simp only: loadFromTemplate_valid [OF result present typed])
  then obtain sw where
    sw: "isSegwitEnabled ext (GetArray (Member bt ''transactions'')) = Inr sw"
    by (cases "isSegwitEnabled ext (GetArray (Member bt ''transactions''))") simp_all
  from unfolded sw obtain processed reward where
    sel: "processTransactions ext (beginLoad w bt sw) (GetArray (Member bt ''transactions'')) ticker
         = Inr (processed, reward)"
    and fin: "finishLoad ext ((beginLoad w bt sw)\<lparr>BlockReward := reward\<rparr>) bt
          (txFilterOf w (GetArray (Member bt ''transactions''))) processed error = (True, w', e)"
    by (auto split: sum.splits)
  from doc result present typed sw sel fin show ?thesis by blast
qed



text \<open>
  What \<^verbatim>\<open>strtoul\<close> makes of a \<^verbatim>\<open>bits\<close> string: plain hex digits, leading white
  space, a sign.
\<close>

lemma strtoul16_examples:
  "strtoul16 ''1d00ffff'' = 0x1d00ffff"
  "strtoul16 '' 1d00ffff'' = 0x1d00ffff"
  "strtoul16 ''+0x1D00FFFF'' = 0x1d00ffff"
  "(ucast (strtoul16 ''-1'') :: 32 word) = 0xffffffff"
  "strtoul16 ''1d00ffffzz'' = 0x1d00ffff"
  "strtoul16 ''zz'' = 0"
  "strtoul16 ''11111111111111111'' = 0xffffffffffffffff"
  by code_simp+



section \<open>Properties of buildBlock\<close>

lemma length_serialize_BlockHeader: "length (serialize_BlockHeader h) = 80"
  by (simp add: serialize_BlockHeader_def serialize_u32_def serialize_uint256_def)

lemma bin2hexLowerCase_append:
  "bin2hexLowerCase (a @ b) = bin2hexLowerCase a @ bin2hexLowerCase b"
  by (simp add: bin2hexLowerCase_def)

lemma hexDigitLower_in: "hexDigitLower n \<in> set ''0123456789abcdef''"
proof -
  have "n AND 0x0F \<le> 0x0F" by (rule word_and_le1)
  then have "unat (n AND 0x0F) \<le> unat (0x0F :: byte)" by (simp only: word_le_nat_alt)
  then have "unat (n AND 0x0F) < length ''0123456789abcdef''" by simp
  then show ?thesis unfolding hexDigitLower_def by (rule nth_mem)
qed

lemma bin2hexLowerCase_lower:
  "list_all (\<lambda>c. c \<in> set ''0123456789abcdef'') (bin2hexLowerCase bs)"
  using hexDigitLower_in
  by (induction bs) (simp_all add: bin2hexLowerCase_def byte2hex_def)

lemma buildBlock_parts:
  "buildBlock w = bin2hexLowerCase (serialize_BlockHeader (Header w))
       @ bin2hexLowerCase (serializeVarSize (TxNum w + 1))
       @ bin2hexLowerCase (Data (CBTxWitness w))
       @ TxHexData w"
  by (simp add: buildBlock_def buildBlockImpl_def bin2hexLowerCase_append)

text \<open>
  A work whose witness coinbase stream is empty when loadFromTemplate runs, as it is
  after the constructor: buildBlock emits the header, CompactSize(txNum + 1) for the
  txNum selected transactions and the witness serialization of the coinbase, in
  lowercase hex, and then the hex payloads of the selected transactions.
\<close>

lemma buildBlock_of_first_load:
  assumes load: "loadFromTemplate ext w document ticker error = Inr (True, w', e)"
    and empty: "Data (CBTxWitness w) = []"
  shows "\<exists>selected :: TxData list.
      buildBlock w' =
         bin2hexLowerCase (serialize_BlockHeader (Header w'))
         @ bin2hexLowerCase (serializeVarSize (of_nat (length selected) + 1))
         @ bin2hexLowerCase (serialize_Transaction (coinbaseTx_built w' None (MiningCfg w')) True)
         @ concat (map HexData selected)
    \<and> TxNum w' = of_nat (length selected)
    \<and> length (serialize_BlockHeader (Header w')) = 80
    \<and> list_all (\<lambda>c. c \<in> set ''0123456789abcdef'')
         (bin2hexLowerCase (serialize_BlockHeader (Header w'))
          @ bin2hexLowerCase (serializeVarSize (of_nat (length selected) + 1))
          @ bin2hexLowerCase (serialize_Transaction (coinbaseTx_built w' None (MiningCfg w')) True))"
proof -
  from loadFromTemplate_True [OF load] obtain bt sw processed reward where
    fin: "finishLoad ext ((beginLoad w bt sw)\<lparr>BlockReward := reward\<rparr>) bt
          (txFilterOf w (GetArray (Member bt ''transactions''))) processed error = (True, w', e)"
    by blast
  from finishLoad_True [OF fin] obtain selected :: "TxData list" where
    hex: "TxHexData w' = concat (map HexData selected)"
    and num: "TxNum w' = of_nat (length selected)"
    and cb: "Data (CBTxWitness w')
         = Data (CBTxWitness ((beginLoad w bt sw)\<lparr>BlockReward := reward\<rparr>))
           @ serialize_Transaction (coinbaseTx_built w' None (MiningCfg w')) True"
    by blast
  have data: "Data (CBTxWitness w')
      = serialize_Transaction (coinbaseTx_built w' None (MiningCfg w')) True"
    using cb empty by (simp add: beginLoad_def)
  have block: "buildBlock w' =
         bin2hexLowerCase (serialize_BlockHeader (Header w'))
         @ bin2hexLowerCase (serializeVarSize (of_nat (length selected) + 1))
         @ bin2hexLowerCase (serialize_Transaction (coinbaseTx_built w' None (MiningCfg w')) True)
         @ concat (map HexData selected)"
    by (simp only: buildBlock_parts hex num data)
  have lower: "list_all (\<lambda>c. c \<in> set ''0123456789abcdef'')
         (bin2hexLowerCase (serialize_BlockHeader (Header w'))
          @ bin2hexLowerCase (serializeVarSize (of_nat (length selected) + 1))
          @ bin2hexLowerCase (serialize_Transaction (coinbaseTx_built w' None (MiningCfg w')) True))"
    using bin2hexLowerCase_lower by simp
  from block num lower length_serialize_BlockHeader show ?thesis
    by blast
qed


end
